theory Spec2Isabelle
  imports Main "HOL-Library.Word"
begin

unbundle bit_operations_syntax

section \<open>Common: failures as values\<close>

text \<open>
  Every assertion of the sources is a branch of the model. \<open>HS_DBG_ASSERT*\<close> are the
  assertions of a debug build (the build that is modelled), \<open>HS_REL_ASSERT*\<close> and
  \<open>RELEASE_ASSERT*\<close> are fatal in every build. Dereferencing a pointer that is null or
  freed, dividing by zero and fulfilling a promise twice are failures as well.
\<close>

datatype hs_error =
    DbgAssert string
  | RelAssert string
  | NullDeref
  | DivideByZero
  | PromiseAlreadySatisfied
  | OutOfRange string

section \<open>Checkpoint manager (src/lib/checkpoint/cp_mgr.cpp)\<close>

subsection \<open>Data\<close>

text \<open>
  The status values are the ones cp_mgr.cpp names; \<open>cp_unknown\<close> stands for the status a
  freshly constructed CP has before the manager assigns one (the manager never reads it).
\<close>

datatype cp_status_t =
    cp_unknown
  | cp_io_ready
  | cp_trigger
  | cp_flush_prepare
  | cp_flushing
  | cp_flush_done
  | cp_cleaning

type_synonym cp_addr = nat
type_synonym promise_id = nat
type_synonym cp_context = nat

text \<open>
  Modelled from the spec: \<open>cp_id_t\<close> and the super-block of the manager are declared
  outside the sources. A CP id is an integer of 64 bits (the spec gives the last-flushed
  id 64 bits in the super-block), so adding one wraps around; \<open>sint\<close> reads it as the
  signed integer it is in the code.
\<close>

type_synonym cp_id_t = "64 word"

text \<open>
  A \<open>folly::Future<bool>\<close> is either made ready at once (\<open>folly::makeFuture\<close>) or is
  attached to a \<open>folly::SharedPromise\<close> (\<open>getFuture()\<close>), identified by the promise.
\<close>

datatype future = MakeFuture bool | GetFuture promise_id

record CP =
  m_cp_id :: cp_id_t
  m_cp_status :: cp_status_t
  m_enter_cnt :: int
  m_cp_waiting_to_trigger :: bool
  m_comp_promise :: promise_id
  m_contexts :: "cp_context option list"

text \<open>
  A consumer (\<open>CPCallbacks\<close>): the context it returns at a switchover, given the ids of the
  old CP (none at registration) and of the new one, and the progress it reports.
  Its \<open>cp_flush\<close>, \<open>cp_cleanup\<close> and \<open>repair_slow_cp\<close> are recorded as events.
\<close>

record CPCallbacks =
  on_switchover_cp :: "cp_id_t option \<Rightarrow> cp_id_t \<Rightarrow> cp_context"
  cp_progress_percent :: nat

datatype event =
    EvCpFlush nat cp_addr
  | EvCpCleanup nat cp_addr
  | EvRepairSlowCp nat
  | EvSbWrite cp_id_t
  | EvPromiseSetValue promise_id bool
  | EvInFlushPhase bool

record cp_mgr_super_block =
  sb_magic :: nat
  sb_version :: nat
  m_last_flushed_cp :: cp_id_t

record CPWatchdog =
  wd_cp :: "cp_addr option"
  wd_progress_pct :: nat
  wd_last_state_ch_time :: nat
  wd_timer_sec :: nat

text \<open>
  The manager. CP objects live on a heap (\<open>new CP\<close>, \<open>delete cp\<close>), since the current-CP
  pointer, the guards of the callers and the flush in flight all point to them.
  \<open>sb_media\<close> is what \<open>m_sb.write()\<close> last put on the media, \<open>promises\<close> holds every
  SharedPromise made so far (\<open>None\<close>: not fulfilled yet), \<open>clock_ms\<close> is \<open>Clock::now()\<close>,
  and \<open>trace\<close> lists the calls out of the manager and its stores to the atomic
  in-flush flag, in program order.
\<close>

record CPManager =
  m_cur_cp :: "cp_addr option"
  heap :: "cp_addr \<Rightarrow> CP option"
  next_addr :: cp_addr
  m_in_flush_phase :: bool
  m_cp_shutdown_initiated :: bool
  m_sb :: cp_mgr_super_block
  sb_media :: "cp_mgr_super_block option"
  m_cp_cb_table :: "CPCallbacks option list"
  promises :: "bool option list"
  m_wd_cp :: CPWatchdog
  clock_ms :: nat
  trace :: "event list"

subsection \<open>Promises and allocation\<close>

definition new_promise :: "CPManager \<Rightarrow> promise_id \<times> CPManager" where
  "new_promise s = (length (promises s), s\<lparr>promises := promises s @ [None]\<rparr>)"

definition setValue :: "promise_id \<Rightarrow> bool \<Rightarrow> CPManager \<Rightarrow> hs_error + CPManager" where
  "setValue p v s =
     (if p < length (promises s) \<and> promises s ! p = None
      then Inr (s\<lparr>promises := (promises s)[p := Some v],
                  trace := trace s @ [EvPromiseSetValue p v]\<rparr>)
      else Inl PromiseAlreadySatisfied)"

text \<open>
  Modelled from the spec: the constructor of CP is not in the sources. A new CP has
  entry count zero, is not waiting to trigger, owns a promise of its own and has one
  empty context slot per consumer slot; id and status are assigned by the caller.
\<close>

definition new_CP :: "CPManager \<Rightarrow> cp_addr \<times> CPManager" where
  "new_CP s =
     (let (p, s1) = new_promise s;
          a = next_addr s1;
          cp = \<lparr>m_cp_id = 0, m_cp_status = cp_unknown, m_enter_cnt = 0,
                m_cp_waiting_to_trigger = False, m_comp_promise = p,
                m_contexts = replicate (length (m_cp_cb_table s1)) None\<rparr>
      in (a, s1\<lparr>heap := (heap s1)(a \<mapsto> cp), next_addr := Suc a\<rparr>))"

definition set_cp :: "cp_addr \<Rightarrow> CP \<Rightarrow> CPManager \<Rightarrow> CPManager" where
  "set_cp a cp s = s\<lparr>heap := (heap s)(a \<mapsto> cp)\<rparr>"

subsection \<open>Boot\<close>

definition create_first_cp :: "CPManager \<Rightarrow> CPManager" where
  "create_first_cp s =
     (let (a, s1) = new_CP s;
          cp = the (heap s1 a)
      in (set_cp a (cp\<lparr>m_cp_status := cp_io_ready,
                        m_cp_id := m_last_flushed_cp (m_sb s1) + 1\<rparr>) s1)
           \<lparr>m_cur_cp := Some a\<rparr>)"

text \<open>
  \<open>on_meta_blk_found\<close>: the super-block found on the media is loaded, the first CP is
  created from it, then magic and version are checked against the constants of the
  build (\<open>cp_sb_magic\<close>, \<open>cp_sb_version\<close>, declared outside the sources: parameters).
\<close>

definition on_meta_blk_found ::
  "nat \<Rightarrow> nat \<Rightarrow> cp_mgr_super_block \<Rightarrow> CPManager \<Rightarrow> hs_error + CPManager" where
  "on_meta_blk_found cp_sb_magic cp_sb_version buf s =
     (let s1 = create_first_cp (s\<lparr>m_sb := buf, sb_media := Some buf\<rparr>) in
      if sb_magic (m_sb s1) \<noteq> cp_sb_magic
      then Inl (RelAssert ''Invalid Checkpoint metablk, magic mismatch'')
      else if sb_version (m_sb s1) \<noteq> cp_sb_version
      then Inl (RelAssert ''Invalid version of checkpoint metablk'')
      else Inr s1)"

definition register_consumer :: "nat \<Rightarrow> CPCallbacks option \<Rightarrow> CPManager \<Rightarrow> hs_error + CPManager" where
  "register_consumer idx callbacks s =
     (if length (m_cp_cb_table s) \<le> idx then Inl (OutOfRange ''m_cp_cb_table'')
      else
        let s1 = s\<lparr>m_cp_cb_table := (m_cp_cb_table s)[idx := callbacks]\<rparr> in
        case callbacks of
          None \<Rightarrow> Inr s1
        | Some cb \<Rightarrow>
            (case m_cur_cp s1 of
               None \<Rightarrow> Inl NullDeref
             | Some a \<Rightarrow>
                 (case heap s1 a of
                    None \<Rightarrow> Inl NullDeref
                  | Some cp \<Rightarrow>
                      Inr (set_cp a (cp\<lparr>m_contexts :=
                             (m_contexts cp)[idx := Some (on_switchover_cp cb None (m_cp_id cp))]\<rparr>) s1))))"

subsection \<open>Entering and leaving a CP\<close>

definition cp_ref :: "cp_addr \<Rightarrow> CPManager \<Rightarrow> hs_error + CPManager" where
  "cp_ref a s =
     (case heap s a of
        None \<Rightarrow> Inl NullDeref
      | Some cp \<Rightarrow>
          let cp1 = cp\<lparr>m_enter_cnt := m_enter_cnt cp + 1\<rparr>;
              status = m_cp_status cp1
          in if status = cp_io_ready \<or> status = cp_trigger \<or> status = cp_flush_prepare
             then Inr (set_cp a cp1 s)
             else Inl (DbgAssert ''cp status''))"

definition cp_io_enter :: "CPManager \<Rightarrow> hs_error + (cp_addr \<times> CPManager)" where
  "cp_io_enter s =
     (case m_cur_cp s of
        None \<Rightarrow> Inl (DbgAssert ''get_cur_cp returned null, cp_io_enter() after shutdown?'')
      | Some a \<Rightarrow>
          (case cp_ref a s of
             Inl e \<Rightarrow> Inl e
           | Inr s1 \<Rightarrow> Inr (a, s1)))"

fun consumer_calls :: "(nat \<Rightarrow> event) \<Rightarrow> CPCallbacks option list \<Rightarrow> nat \<Rightarrow> event list" where
  "consumer_calls mk [] idx = []"
| "consumer_calls mk (consumer # rest) idx =
     (case consumer of
        None \<Rightarrow> consumer_calls mk rest (Suc idx)
      | Some cb \<Rightarrow> mk idx # consumer_calls mk rest (Suc idx))"

definition cp_start_flush :: "cp_addr \<Rightarrow> CPManager \<Rightarrow> hs_error + CPManager" where
  "cp_start_flush a s =
     (case heap s a of
        None \<Rightarrow> Inl NullDeref
      | Some cp \<Rightarrow>
          let s1 = set_cp a (cp\<lparr>m_cp_status := cp_flushing\<rparr>) s
          in Inr (s1\<lparr>trace := trace s1 @
                      consumer_calls (\<lambda>idx. EvCpFlush idx a) (m_cp_cb_table s1) 0\<rparr>))"

text \<open>
  \<open>decrement_testz(1)\<close> of the counter takes one off and tells whether zero was reached.
\<close>

definition cp_io_exit :: "cp_addr \<Rightarrow> CPManager \<Rightarrow> hs_error + CPManager" where
  "cp_io_exit a s =
     (case heap s a of
        None \<Rightarrow> Inl NullDeref
      | Some cp \<Rightarrow>
          if m_cp_status cp = cp_flushing then Inl (DbgAssert ''cp status is cp_flushing'')
          else
            let cp1 = cp\<lparr>m_enter_cnt := m_enter_cnt cp - 1\<rparr>;
                s1 = set_cp a cp1 s
            in if m_enter_cnt cp1 = 0 \<and> m_cp_status cp1 = cp_flush_prepare
               then cp_start_flush a s1
               else Inr s1)"

subsection \<open>CPGuard\<close>

text \<open>
  The constructor of a guard reads the thread-local stack \<open>t_cp_stack\<close> of the calling
  thread (head of the list: top of the stack): the first guard of a thread enters the
  current CP, a nested one takes another reference on the CP on top. The destructor pops
  and leaves the CP.
\<close>

definition CPGuard_ctor ::
  "cp_addr list \<Rightarrow> CPManager \<Rightarrow> hs_error + (cp_addr \<times> cp_addr list \<times> CPManager)" where
  "CPGuard_ctor t_cp_stack s =
     (case t_cp_stack of
        [] \<Rightarrow>
          (case cp_io_enter s of
             Inl e \<Rightarrow> Inl e
           | Inr (a, s1) \<Rightarrow> Inr (a, [a], s1))
      | tos # _ \<Rightarrow>
          (case cp_ref tos s of
             Inl e \<Rightarrow> Inl e
           | Inr s1 \<Rightarrow> Inr (tos, tos # t_cp_stack, s1)))"

definition CPGuard_dtor :: "cp_addr \<Rightarrow> CPManager \<Rightarrow> hs_error + CPManager" where
  "CPGuard_dtor a s = cp_io_exit a s"

subsection \<open>Triggering a flush\<close>

fun switchover_loop ::
  "CPCallbacks option list \<Rightarrow> nat \<Rightarrow> cp_id_t \<Rightarrow> cp_id_t \<Rightarrow> cp_context option list \<Rightarrow>
     cp_context option list" where
  "switchover_loop [] idx cur_id new_id ctxs = ctxs"
| "switchover_loop (consumer # rest) idx cur_id new_id ctxs =
     switchover_loop rest (Suc idx) cur_id new_id
       (case consumer of
          None \<Rightarrow> ctxs
        | Some cb \<Rightarrow> ctxs[idx := Some (on_switchover_cp cb (Some cur_id) new_id)])"

text \<open>
  Lines 162 to 196 of \<open>trigger_cp_flush\<close>: the part run by the caller that won the
  in-flush flag, up to the end of the section under \<open>trigger_cp_mtx\<close>. \<open>cur\<close> is the CP
  of the caller's guard. The result is the future for the caller, the new CP and the state.
\<close>

definition trigger_switchover ::
  "cp_addr \<Rightarrow> CPManager \<Rightarrow> hs_error + (future \<times> cp_addr \<times> CPManager)" where
  "trigger_switchover cur s =
     (case heap s cur of
        None \<Rightarrow> Inl NullDeref
      | Some c0 \<Rightarrow>
          let s1 = set_cp cur (c0\<lparr>m_cp_status := cp_trigger\<rparr>) s;
              (new, s2) = new_CP s1;
              cur_cp = the (heap s2 cur);
              n1 = (the (heap s2 new))\<lparr>m_cp_id := m_cp_id cur_cp + 1\<rparr>;
              n2 = n1\<lparr>m_contexts := switchover_loop (m_cp_cb_table s2) 0
                                       (m_cp_id cur_cp) (m_cp_id n1) (m_contexts n1)\<rparr>;
              s3 = set_cp new n2 s2;
              (ret_fut, s4) =
                (if m_cp_waiting_to_trigger cur_cp then (MakeFuture True, s3)
                 else
                   let (p, s') = new_promise s3
                   in (GetFuture p, set_cp cur (cur_cp\<lparr>m_comp_promise := p\<rparr>) s'));
              s5 = set_cp cur ((the (heap s4 cur))\<lparr>m_cp_status := cp_flush_prepare\<rparr>) s4;
              s6 = set_cp new ((the (heap s5 new))\<lparr>m_cp_status := cp_io_ready\<rparr>) s5
          in Inr (ret_fut, new, s6\<lparr>m_cur_cp := Some new\<rparr>))"

text \<open>
  Lines 147 to 159: the caller found a flush in progress.
\<close>

definition trigger_back_to_back ::
  "cp_addr list \<Rightarrow> CPManager \<Rightarrow> hs_error + (future \<times> CPManager)" where
  "trigger_back_to_back t_cp_stack s =
     (case CPGuard_ctor t_cp_stack s of
        Inl e \<Rightarrow> Inl e
      | Inr (cur, stk, s1) \<Rightarrow>
          (case heap s1 cur of
             None \<Rightarrow> Inl NullDeref
           | Some cur_cp \<Rightarrow>
               if m_cp_status cur_cp = cp_flush_prepare
               then Inl (DbgAssert ''cp status is cp_flush_prepare'')
               else
                 let s2 =
                       (if \<not> m_cp_waiting_to_trigger cur_cp
                        then
                          let (p, s') = new_promise s1
                          in set_cp cur (cur_cp\<lparr>m_comp_promise := p,
                                                 m_cp_waiting_to_trigger := True\<rparr>) s'
                        else s1);
                     fut = GetFuture (m_comp_promise (the (heap s2 cur)))
                 in (case CPGuard_dtor cur s2 of
                       Inl e \<Rightarrow> Inl e
                     | Inr s3 \<Rightarrow> Inr (fut, s3))))"

definition trigger_cp_flush ::
  "bool \<Rightarrow> cp_addr list \<Rightarrow> CPManager \<Rightarrow> hs_error + (future \<times> CPManager)" where
  "trigger_cp_flush force t_cp_stack s =
     (if m_in_flush_phase s
      then (if force then trigger_back_to_back t_cp_stack s
            else Inr (MakeFuture False, s))
      else
        let s0 = s\<lparr>m_in_flush_phase := True, trace := trace s @ [EvInFlushPhase True]\<rparr> in
        case CPGuard_ctor t_cp_stack s0 of
          Inl e \<Rightarrow> Inl e
        | Inr (cur, stk, s1) \<Rightarrow>
            (case trigger_switchover cur s1 of
               Inl e \<Rightarrow> Inl e
             | Inr (ret_fut, new, s2) \<Rightarrow>
                 (case CPGuard_dtor cur s2 of
                    Inl e \<Rightarrow> Inl e
                  | Inr s3 \<Rightarrow> Inr (ret_fut, s3))))"

subsection \<open>Completion of a flush\<close>

definition cleanup_cp :: "cp_addr \<Rightarrow> CPManager \<Rightarrow> hs_error + CPManager" where
  "cleanup_cp a s =
     (case heap s a of
        None \<Rightarrow> Inl NullDeref
      | Some cp \<Rightarrow>
          let s1 = set_cp a (cp\<lparr>m_cp_status := cp_cleaning\<rparr>) s
          in Inr (s1\<lparr>trace := trace s1 @
                      consumer_calls (\<lambda>idx. EvCpCleanup idx a) (m_cp_cb_table s1) 0\<rparr>))"

definition persist_sb :: "CPManager \<Rightarrow> CPManager" where
  "persist_sb s =
     (let sb = (m_sb s)\<lparr>m_last_flushed_cp := m_last_flushed_cp (m_sb s) + 1\<rparr>
      in s\<lparr>m_sb := sb, sb_media := Some sb,
            trace := trace s @ [EvSbWrite (m_last_flushed_cp sb)]\<rparr>)"

definition wd_reset_cp :: "CPManager \<Rightarrow> CPManager" where
  "wd_reset_cp s = s\<lparr>m_wd_cp := (m_wd_cp s)\<lparr>wd_cp := None, wd_progress_pct := 0\<rparr>\<rparr>"

definition wd_set_cp :: "cp_addr \<Rightarrow> CPManager \<Rightarrow> CPManager" where
  "wd_set_cp a s =
     s\<lparr>m_wd_cp := (m_wd_cp s)\<lparr>wd_cp := Some a, wd_last_state_ch_time := clock_ms s\<rparr>\<rparr>"

text \<open>
  Lines 245 to 257 of \<open>on_cp_flush_done\<close>: what follows the promise when no shutdown was
  initiated. It runs on a fiber of its own, whose guard stack is empty.
\<close>

definition rearm_after_flush :: "CPManager \<Rightarrow> hs_error + CPManager" where
  "rearm_after_flush s =
     (let s1 = s\<lparr>m_in_flush_phase := False, trace := trace s @ [EvInFlushPhase False]\<rparr> in
      case CPGuard_ctor [] s1 of
        Inl e \<Rightarrow> Inl e
      | Inr (cur, stk, s2) \<Rightarrow>
          let s3 = wd_set_cp cur s2 in
          (case heap s3 cur of
             None \<Rightarrow> Inl NullDeref
           | Some cur_cp \<Rightarrow>
               if m_cp_waiting_to_trigger cur_cp
               then (case trigger_cp_flush False stk s3 of
                       Inl e \<Rightarrow> Inl e
                     | Inr (fut, s4) \<Rightarrow> CPGuard_dtor cur s4)
               else CPGuard_dtor cur s3))"

definition on_cp_flush_done :: "cp_addr \<Rightarrow> CPManager \<Rightarrow> hs_error + CPManager" where
  "on_cp_flush_done a s =
     (case heap s a of
        None \<Rightarrow> Inl NullDeref
      | Some cp \<Rightarrow>
          if m_cp_status cp \<noteq> cp_flushing then Inl (DbgAssert ''cp status is not cp_flushing'')
          else
            let s1 = set_cp a (cp\<lparr>m_cp_status := cp_flush_done\<rparr>) s;
                s2 = persist_sb s1
            in (case cleanup_cp a s2 of
                  Inl e \<Rightarrow> Inl e
                | Inr s3 \<Rightarrow>
                    let shutdown_initiated = m_cp_shutdown_initiated s3;
                        promise = m_comp_promise (the (heap s3 a));
                        s4 = wd_reset_cp s3;
                        s5 = s4\<lparr>heap := (heap s4)(a := None)\<rparr>
                    in (case setValue promise True s5 of
                          Inl e \<Rightarrow> Inl e
                        | Inr s6 \<Rightarrow>
                            if shutdown_initiated then Inr s6
                            else rearm_after_flush s6)))"

subsection \<open>Shutdown\<close>

text \<open>
  Lines 73 to 80 of \<open>shutdown\<close>: the timer is cancelled (timers are calls of the run
  below, which stop coming), the shutdown flag is set and a flush is forced; the result
  is the future \<open>shutdown\<close> then waits on. Lines 81 to 91, which tear the manager down,
  run only once that future holds a value.
\<close>

definition shutdown_begin ::
  "cp_addr list \<Rightarrow> CPManager \<Rightarrow> hs_error + (future \<times> CPManager)" where
  "shutdown_begin t_cp_stack s =
     trigger_cp_flush True t_cp_stack (s\<lparr>m_cp_shutdown_initiated := True\<rparr>)"

subsection \<open>Watchdog\<close>

fun progress_sum :: "CPCallbacks option list \<Rightarrow> nat \<times> nat \<Rightarrow> nat \<times> nat" where
  "progress_sum [] (cum_pct, count) = (cum_pct, count)"
| "progress_sum (consumer # rest) (cum_pct, count) =
     progress_sum rest
       (case consumer of
          None \<Rightarrow> (cum_pct, count)
        | Some cb \<Rightarrow> (cum_pct + cp_progress_percent cb, Suc count))"

text \<open>
  The repair loop of lines 413 to 422: the result is the consumers asked to repair,
  and whether the loop returned from the function (\<open>repair_attempted\<close> was set).
\<close>

fun repair_loop :: "CPCallbacks option list \<Rightarrow> nat \<Rightarrow> event list \<times> bool" where
  "repair_loop [] idx = ([], False)"
| "repair_loop (consumer # rest) idx =
     (case consumer of
        None \<Rightarrow> repair_loop rest (Suc idx)
      | Some cb \<Rightarrow>
          if cp_progress_percent cb \<noteq> 100 then ([EvRepairSlowCp idx], True)
          else repair_loop rest (Suc idx))"

text \<open>Lines 390 to 426 of \<open>cp_watchdog_timer\<close>: what follows the check of the status.\<close>

definition watchdog_check :: "CPManager \<Rightarrow> hs_error + CPManager" where
  "watchdog_check s =
     (let wd = m_wd_cp s;
          (cum_pct, count) = progress_sum (m_cp_cb_table s) (0, 0)
      in if count = 0 then Inl DivideByZero
         else if wd_progress_pct wd > cum_pct div count
         then Inr (s\<lparr>m_wd_cp := wd\<lparr>wd_progress_pct := cum_pct div count\<rparr>\<rparr>)
         else
           let elapsed = clock_ms s - wd_last_state_ch_time wd;
               max_time_multiplier = 12
           in if elapsed < max_time_multiplier * wd_timer_sec wd * 1000
              then
                (case repair_loop (m_cp_cb_table s) 0 of
                   (evs, True) \<Rightarrow> Inr (s\<lparr>trace := trace s @ evs\<rparr>)
                 | (evs, False) \<Rightarrow> Inl (RelAssert ''cp seems to be stuck''))
              else Inr s)"

definition cp_watchdog_timer :: "CPManager \<Rightarrow> hs_error + CPManager" where
  "cp_watchdog_timer s =
     (case wd_cp (m_wd_cp s) of
        None \<Rightarrow> Inr s
      | Some a \<Rightarrow>
          (case heap s a of
             None \<Rightarrow> Inl NullDeref
           | Some cp \<Rightarrow>
               let status = m_cp_status cp
               in if status \<noteq> cp_flush_prepare \<or> status \<noteq> cp_flushing then Inr s
                  else watchdog_check s))"

subsection \<open>Runs of the manager\<close>

text \<open>
  The manager as its constructor leaves it, with \<open>n\<close> consumer slots and the watchdog
  period \<open>timer_sec\<close>: no CP yet, no flush in progress.
\<close>

definition CPManager_ctor :: "nat \<Rightarrow> nat \<Rightarrow> CPManager" where
  "CPManager_ctor n timer_sec =
     \<lparr>m_cur_cp = None, heap = (\<lambda>a. None), next_addr = 0,
      m_in_flush_phase = False, m_cp_shutdown_initiated = False,
      m_sb = \<lparr>sb_magic = 0, sb_version = 0, m_last_flushed_cp = 0\<rparr>,
      sb_media = None,
      m_cp_cb_table = replicate n None, promises = [],
      m_wd_cp = \<lparr>wd_cp = None, wd_progress_pct = 0, wd_last_state_ch_time = 0,
                 wd_timer_sec = timer_sec\<rparr>,
      clock_ms = 0, trace = []\<rparr>"

text \<open>
  One call into a running manager, by a client, a consumer, a timer, the completion of
  the consumers' flushes or the owner shutting it down. Calls are taken one at a time. A
  client leaves only a CP it holds a reference on (the destructor of its guard). Of
  \<open>shutdown\<close> the run has the part up to its wait for the flush; the manager is torn
  down after that wait, and no call is made into a manager torn down.
\<close>

inductive cp_step :: "CPManager \<Rightarrow> CPManager \<Rightarrow> bool" where
  step_enter: "cp_io_enter s = Inr (a, s') \<Longrightarrow> cp_step s s'"
| step_ref: "cp_ref a s = Inr s' \<Longrightarrow> cp_step s s'"
| step_exit: "heap s a = Some cp \<Longrightarrow> 0 < m_enter_cnt cp \<Longrightarrow> cp_io_exit a s = Inr s' \<Longrightarrow> cp_step s s'"
| step_trigger: "trigger_cp_flush force t_cp_stack s = Inr (fut, s') \<Longrightarrow> cp_step s s'"
| step_flush_done: "on_cp_flush_done a s = Inr s' \<Longrightarrow> cp_step s s'"
| step_register: "register_consumer idx callbacks s = Inr s' \<Longrightarrow> cp_step s s'"
| step_watchdog: "cp_watchdog_timer s = Inr s' \<Longrightarrow> cp_step s s'"
| step_clock: "clock_ms s \<le> t \<Longrightarrow> cp_step s (s\<lparr>clock_ms := t\<rparr>)"
| step_shutdown: "shutdown_begin t_cp_stack s = Inr (fut, s') \<Longrightarrow> cp_step s s'"

text \<open>A state the manager can be in after a boot from a super-block found on the media.\<close>

definition reachable :: "CPManager \<Rightarrow> bool" where
  "reachable s \<longleftrightarrow>
     (\<exists>cp_sb_magic cp_sb_version buf n timer_sec s0.
        on_meta_blk_found cp_sb_magic cp_sb_version buf (CPManager_ctor n timer_sec) = Inr s0 \<and>
        cp_step\<^sup>*\<^sup>* s0 s)"

text \<open>
  The shape of a reachable state. A live CP has a valid address, a count that is not
  negative and a promise that is not fulfilled. Either no flush is in progress and the
  current CP is the only CP (\<open>cp_idle\<close>), or one is and the CP in flush is the only other
  one (\<open>cp_in_flush\<close>), or a flush completed after shutdown was initiated: the in-flush
  flag was left set and the current CP is again the only CP (\<open>cp_stopped\<close>).
\<close>

definition live_cp :: "CPManager \<Rightarrow> cp_addr \<Rightarrow> CP \<Rightarrow> bool" where
  "live_cp s a cp \<longleftrightarrow>
     heap s a = Some cp \<and> a < next_addr s \<and> 0 \<le> m_enter_cnt cp \<and>
     m_comp_promise cp < length (promises s) \<and> promises s ! m_comp_promise cp = None"

definition cp_idle :: "CPManager \<Rightarrow> cp_addr \<Rightarrow> CP \<Rightarrow> bool" where
  "cp_idle s cur c \<longleftrightarrow>
     \<not> m_in_flush_phase s \<and> sb_media s = Some (m_sb s) \<and>
     m_cur_cp s = Some cur \<and> live_cp s cur c \<and> dom (heap s) = {cur} \<and>
     m_cp_status c = cp_io_ready \<and> m_cp_id c = m_last_flushed_cp (m_sb s) + 1"

definition cp_in_flush :: "CPManager \<Rightarrow> cp_addr \<Rightarrow> CP \<Rightarrow> cp_addr \<Rightarrow> CP \<Rightarrow> bool" where
  "cp_in_flush s cur c old oc \<longleftrightarrow>
     m_in_flush_phase s \<and> sb_media s = Some (m_sb s) \<and>
     m_cur_cp s = Some cur \<and> live_cp s cur c \<and> live_cp s old oc \<and> old \<noteq> cur \<and>
     dom (heap s) = {cur, old} \<and>
     m_cp_status c = cp_io_ready \<and>
     (m_cp_status oc = cp_flush_prepare \<or> m_cp_status oc = cp_flushing) \<and>
     m_cp_id oc = m_last_flushed_cp (m_sb s) + 1 \<and>
     m_cp_id c = m_last_flushed_cp (m_sb s) + 2 \<and>
     m_comp_promise oc \<noteq> m_comp_promise c"



text \<open>The number of writes of the super-block among the events of a trace.\<close>

fun sb_writes :: "event list \<Rightarrow> nat" where
  "sb_writes [] = 0"
| "sb_writes (e # evs) = (case e of EvSbWrite i \<Rightarrow> Suc (sb_writes evs) | _ \<Rightarrow> sb_writes evs)"

text \<open>
  What one call leaves in place: addresses and promises are never reused, a fulfilled
  promise keeps its value, the trace grows, the last-flushed id is raised by one for every
  write of the super-block, the shutdown flag stays once set, and a CP that waits to
  trigger keeps its promise until it is deleted, when that promise holds \<open>true\<close>.
\<close>

definition cp_frame :: "CPManager \<Rightarrow> CPManager \<Rightarrow> bool" where
  "cp_frame s s' \<longleftrightarrow>
     next_addr s \<le> next_addr s' \<and>
     (\<exists>evs. trace s' = trace s @ evs \<and>
        m_last_flushed_cp (m_sb s') = m_last_flushed_cp (m_sb s) + of_nat (sb_writes evs)) \<and>
     (m_cp_shutdown_initiated s \<longrightarrow> m_cp_shutdown_initiated s') \<and>
     length (promises s) \<le> length (promises s') \<and>
     (\<forall>q<length (promises s). promises s ! q \<noteq> None \<longrightarrow> promises s' ! q = promises s ! q) \<and>
     (\<forall>a. a < next_addr s \<and> heap s a = None \<longrightarrow> heap s' a = None) \<and>
     (\<forall>a c. heap s a = Some c \<and> m_cp_waiting_to_trigger c \<longrightarrow>
        (heap s' a = None \<and> promises s' ! m_comp_promise c = Some True) \<or>
        (\<exists>c'. heap s' a = Some c' \<and> m_cp_waiting_to_trigger c' \<and>
              m_comp_promise c' = m_comp_promise c))"

subsection \<open>A run to test with\<close>

text \<open>
  Two consumers, both registered; the super-block on the media says CP 4 was the last one
  flushed. \<open>ex_booted\<close> is the manager after the boot, \<open>ex_entered\<close> after a client entered
  the current CP, \<open>ex_triggered\<close> after a first trigger, which leaves CP 5 waiting for that
  client, \<open>ex_flushing\<close> after the client left, and \<open>ex_forced\<close> after a forced trigger
  during that flush.
\<close>

definition ex_cb :: "nat \<Rightarrow> CPCallbacks" where
  "ex_cb pct = \<lparr>on_switchover_cp = (\<lambda>old new. unat new), cp_progress_percent = pct\<rparr>"

definition ex_sb :: cp_mgr_super_block where
  "ex_sb = \<lparr>sb_magic = 7, sb_version = 1, m_last_flushed_cp = 4\<rparr>"

definition ex_table :: "CPCallbacks option list" where
  "ex_table = [Some (ex_cb 50), Some (ex_cb 50)]"

definition ex_cp :: "cp_id_t \<Rightarrow> cp_status_t \<Rightarrow> int \<Rightarrow> bool \<Rightarrow> promise_id \<Rightarrow> nat \<Rightarrow> CP" where
  "ex_cp i st cnt w p ctx =
     \<lparr>m_cp_id = i, m_cp_status = st, m_enter_cnt = cnt, m_cp_waiting_to_trigger = w,
      m_comp_promise = p, m_contexts = [Some ctx, Some ctx]\<rparr>"

definition ex_booted :: CPManager where
  "ex_booted =
     \<lparr>m_cur_cp = Some 0, heap = (\<lambda>a. None)(0 \<mapsto> ex_cp 5 cp_io_ready 0 False 0 5),
      next_addr = 1, m_in_flush_phase = False, m_cp_shutdown_initiated = False,
      m_sb = ex_sb, sb_media = Some ex_sb, m_cp_cb_table = ex_table, promises = [None],
      m_wd_cp = \<lparr>wd_cp = None, wd_progress_pct = 0, wd_last_state_ch_time = 0,
                 wd_timer_sec = 10\<rparr>,
      clock_ms = 0, trace = []\<rparr>"

definition ex_entered :: CPManager where
  "ex_entered = ex_booted\<lparr>heap := (\<lambda>a. None)(0 \<mapsto> ex_cp 5 cp_io_ready 1 False 0 5)\<rparr>"

definition ex_triggered :: CPManager where
  "ex_triggered =
     ex_booted\<lparr>m_cur_cp := Some 1,
       heap := (\<lambda>a. None)(0 \<mapsto> ex_cp 5 cp_flush_prepare 1 False 2 5,
                            1 \<mapsto> ex_cp 6 cp_io_ready 0 False 1 6),
       next_addr := 2, m_in_flush_phase := True, promises := [None, None, None],
       trace := [EvInFlushPhase True]\<rparr>"

definition ex_flushing :: CPManager where
  "ex_flushing =
     ex_triggered\<lparr>
       heap := (\<lambda>a. None)(0 \<mapsto> ex_cp 5 cp_flushing 0 False 2 5,
                            1 \<mapsto> ex_cp 6 cp_io_ready 0 False 1 6),
       trace := [EvInFlushPhase True, EvCpFlush 0 0, EvCpFlush 1 0]\<rparr>"

definition ex_forced :: CPManager where
  "ex_forced =
     ex_flushing\<lparr>
       heap := (\<lambda>a. None)(0 \<mapsto> ex_cp 5 cp_flushing 0 False 2 5,
                            1 \<mapsto> ex_cp 6 cp_io_ready 0 True 3 6),
       promises := [None, None, None, None]\<rparr>"

text \<open>
  \<open>ex_b2b\<close> is the manager after the flush of CP 5 completed in \<open>ex_forced\<close>: CP 6 was
  switched out back to back and, nobody being in it, is flushing at once; the watchdog
  watches it. \<open>ex_done\<close> is the manager after the flush of CP 6 completed as well.
  In \<open>ex_stalled\<close> 30 seconds have passed since \<open>ex_b2b\<close> (the watchdog period is 10 seconds)
  and both consumers still report 50 percent; in \<open>ex_overdue\<close> 130 seconds have.
\<close>

definition ex_b2b :: CPManager where
  "ex_b2b =
     \<lparr>m_cur_cp = Some 2,
      heap = (\<lambda>a. None)(1 \<mapsto> ex_cp 6 cp_flushing 0 True 3 6,
                           2 \<mapsto> ex_cp 7 cp_io_ready 0 False 4 7),
      next_addr = 3, m_in_flush_phase = True, m_cp_shutdown_initiated = False,
      m_sb = ex_sb\<lparr>m_last_flushed_cp := 5\<rparr>, sb_media = Some (ex_sb\<lparr>m_last_flushed_cp := 5\<rparr>),
      m_cp_cb_table = ex_table, promises = [None, None, Some True, None, None],
      m_wd_cp = \<lparr>wd_cp = Some 1, wd_progress_pct = 0, wd_last_state_ch_time = 0,
                 wd_timer_sec = 10\<rparr>,
      clock_ms = 0,
      trace = [EvInFlushPhase True, EvCpFlush 0 0, EvCpFlush 1 0,
               EvSbWrite 5, EvCpCleanup 0 0, EvCpCleanup 1 0, EvPromiseSetValue 2 True,
               EvInFlushPhase False, EvInFlushPhase True, EvCpFlush 0 1, EvCpFlush 1 1]\<rparr>"


definition ex_stalled :: CPManager where
  "ex_stalled = ex_b2b\<lparr>clock_ms := 30000\<rparr>"

definition ex_overdue :: CPManager where
  "ex_overdue = ex_b2b\<lparr>clock_ms := 130000\<rparr>"

text \<open>
  \<open>ex_shutdown\<close> is the manager after \<open>shutdown\<close> forced its flush in \<open>ex_flushing\<close>, during the
  flush of CP 5: CP 6 waits to trigger, as in \<open>ex_forced\<close>, and the shutdown flag is set.
  \<open>ex_stopped\<close> is the manager after the flush of CP 5 completed then: CP 6 was not
  triggered and the in-flush flag is still set.
\<close>

definition ex_shutdown :: CPManager where
  "ex_shutdown = ex_forced\<lparr>m_cp_shutdown_initiated := True\<rparr>"

definition ex_stopped :: CPManager where
  "ex_stopped =
     ex_shutdown\<lparr>
       heap := (\<lambda>a. None)(1 \<mapsto> ex_cp 6 cp_io_ready 0 True 3 6),
       m_sb := ex_sb\<lparr>m_last_flushed_cp := 5\<rparr>, sb_media := Some (ex_sb\<lparr>m_last_flushed_cp := 5\<rparr>),
       promises := [None, None, Some True, None],
       trace := [EvInFlushPhase True, EvCpFlush 0 0, EvCpFlush 1 0,
                 EvSbWrite 5, EvCpCleanup 0 0, EvCpCleanup 1 0, EvPromiseSetValue 2 True]\<rparr>"


section \<open>Device manager (device_manager.cpp, the unnamed source part_003)\<close>

subsection \<open>Containers the manager is built on\<close>

text \<open>
  Modelled from the spec: \<open>sparse_vector\<close> is not in the sources. It is a vector whose
  slots may be empty (a null pointer) and which grows by empty slots when a slot beyond
  its size is read or written through \<open>operator[]\<close>.
\<close>

definition sv_at :: "'a option list \<Rightarrow> nat \<Rightarrow> 'a option \<times> 'a option list" where
  "sv_at v i =
     (if i < length v then (v ! i, v)
      else (None, v @ replicate (Suc i - length v) None))"

definition sv_set :: "'a option list \<Rightarrow> nat \<Rightarrow> 'a option \<Rightarrow> 'a option list" where
  "sv_set v i x = (snd (sv_at v i))[i := x]"

text \<open>
  Modelled from the spec: \<open>sisl::Bitset\<close> is not in the sources. A bitmap of a fixed
  number of bits; \<open>get_next_reset_bit(start)\<close> is the first bit at or after \<open>start\<close> that
  is not set, or \<open>npos\<close> (here \<open>None\<close>) when there is none.
\<close>

fun first_reset :: "bool list \<Rightarrow> nat \<Rightarrow> nat option" where
  "first_reset [] i = None"
| "first_reset (b # bs) i = (if b then first_reset bs (Suc i) else Some i)"

definition get_next_reset_bit :: "bool list \<Rightarrow> nat \<Rightarrow> nat option" where
  "get_next_reset_bit bm start = first_reset (drop start bm) start"

definition set_bit_bm :: "bool list \<Rightarrow> nat \<Rightarrow> bool list" where
  "set_bit_bm bm i = bm[i := True]"

text \<open>
  Modelled from the spec: \<open>sisl::round_up\<close> is not in the sources. It takes and returns
  \<open>uint64_t\<close> (\<open>create_vdev\<close> calls it with a \<open>uint64_t\<close> and a \<open>uint32_t\<close>, and with two
  \<open>uint32_t\<close>): the least multiple of \<open>multiple\<close> that is not below \<open>num_to_round\<close>,
  computed as \<open>(num_to_round + multiple - 1) / multiple * multiple\<close>, the sum wrapping
  around at \<open>2^64\<close>. Both arguments are below \<open>2^64\<close>; the callers below never reach it
  with a multiple of zero (the model fails with \<open>DivideByZero\<close> first).
\<close>

definition round_up :: "nat \<Rightarrow> nat \<Rightarrow> nat" where
  "round_up num_to_round multiple =
     (((num_to_round + multiple - 1) mod 2 ^ 64) div multiple) * multiple"

subsection \<open>Data\<close>

datatype HSDevType = Data | Fast

text \<open>
  The placement options \<open>create_vdev\<close> tells apart; \<open>SINGLE_ANY_PDEV\<close> stands for every
  value its last \<open>else\<close> takes.
\<close>

datatype vdev_multi_pdev_opts_t =
    ALL_PDEV_STRIPED
  | ALL_PDEV_MIRRORED
  | SINGLE_FIRST_PDEV
  | SINGLE_ANY_PDEV

type_synonym uuid_t = nat

record dev_info =
  dev_name :: string
  dev_type :: HSDevType
  dev_size :: nat

record first_block_header =
  gen_number :: nat
  version :: nat
  num_pdevs :: nat
  max_vdevs :: nat
  max_system_chunks :: nat
  system_uuid :: uuid_t

record pdev_info_header =
  pdev_id :: nat
  pinfo_system_uuid :: uuid_t

record first_block =
  is_valid :: bool
  hdr :: first_block_header
  this_pdev_hdr :: pdev_info_header

record Chunk =
  chunk_id :: nat
  chunk_pdev_id :: nat
  chunk_vdev_id :: nat
  chunk_size :: nat

record vdev_info =
  vdev_id :: nat
  vdev_size :: nat
  num_mirrors :: nat
  blk_size :: nat
  num_primary_chunks :: nat
  slot_allocated :: bool
  vinfo_dev_type :: HSDevType
  pdev_choice :: vdev_multi_pdev_opts_t
  vinfo_name :: string
  user_private :: string
  alloc_type :: nat
  chunk_sel_type :: nat
  checksum :: nat

text \<open>
  Modelled from the spec: \<open>vdev_parameters\<close> is not in the sources. \<open>create_vdev\<close> takes
  the minimum of \<open>num_chunks\<close> and a \<open>uint32_t\<close>, so \<open>num_chunks\<close> is a \<open>uint32_t\<close>;
  \<open>blk_size\<close> is a \<open>uint32_t\<close> and \<open>vdev_size\<close> a \<open>uint64_t\<close>, as the page size and the
  size of a VDev are in the earlier header.
\<close>

record vdev_parameters =
  vdev_name :: string
  vp_vdev_size :: "64 word"
  num_chunks :: "32 word"
  vp_blk_size :: "32 word"
  vp_dev_type :: HSDevType
  vp_alloc_type :: nat
  vp_chunk_sel_type :: nat
  multi_pdev_opts :: vdev_multi_pdev_opts_t
  context_data :: string

text \<open>
  What a device holds, as the manager reads it: its first block, the number of streams
  its attributes give, the VDev super-block region (one \<open>vdev_info\<close> per slot) and the
  chunks recorded in its chunk table. \<open>media\<close> maps a device name to that.
\<close>

record device_media =
  md_first_block :: first_block
  md_num_streams :: "32 word"
  md_vdev_sb :: "vdev_info list"
  md_chunks :: "Chunk list"

type_synonym media = "string \<Rightarrow> device_media"

text \<open>
  Modelled from the spec: class \<open>PhysicalDev\<close> is not in the sources. An opened device keeps
  its \<open>dev_info\<close> and PDev header and gives access to its super-block region and chunk
  table; \<open>create_chunks\<close> records one chunk per given id, owned by the given VDev and of
  the given size, and returns them; \<open>load_chunks\<close> hands every recorded chunk to a
  callback; \<open>write_super_block\<close> of a \<open>vdev_info\<close> stores it in the slot of its id.
\<close>

record PhysicalDev =
  pd_dev_info :: dev_info
  pd_pinfo :: pdev_info_header
  num_streams :: "32 word"
  pd_vdev_sb :: "vdev_info list"
  pd_chunks :: "Chunk list"

definition read_first_block :: "media \<Rightarrow> string \<Rightarrow> first_block" where
  "read_first_block m name = md_first_block (m name)"

definition PhysicalDev_ctor :: "media \<Rightarrow> dev_info \<Rightarrow> pdev_info_header \<Rightarrow> PhysicalDev" where
  "PhysicalDev_ctor m d pinfo =
     \<lparr>pd_dev_info = d, pd_pinfo = pinfo, num_streams = md_num_streams (m (dev_name d)),
      pd_vdev_sb = md_vdev_sb (m (dev_name d)), pd_chunks = md_chunks (m (dev_name d))\<rparr>"

definition create_chunks :: "nat list \<Rightarrow> nat \<Rightarrow> nat \<Rightarrow> PhysicalDev \<Rightarrow> Chunk list \<times> PhysicalDev" where
  "create_chunks chunk_ids vid csize pdev =
     (let chunks = map (\<lambda>cid. \<lparr>chunk_id = cid, chunk_pdev_id = pdev_id (pd_pinfo pdev),
                                 chunk_vdev_id = vid, chunk_size = csize\<rparr>) chunk_ids
      in (chunks, pdev\<lparr>pd_chunks := pd_chunks pdev @ chunks\<rparr>))"

definition write_vdev_super_block :: "vdev_info \<Rightarrow> PhysicalDev \<Rightarrow> PhysicalDev" where
  "write_vdev_super_block vinfo pdev = pdev\<lparr>pd_vdev_sb := (pd_vdev_sb pdev)[vdev_id vinfo := vinfo]\<rparr>"

text \<open>
  Modelled from the spec: class \<open>VirtualDev\<close> is not in the sources, and the callback
  \<open>m_vdev_create_cb\<close> is given by the upper layer. A VDev keeps the \<open>vdev_info\<close> it was
  created from and the chunks added to it, in the order of \<open>add_chunk\<close>.
\<close>

record VirtualDev =
  vd_info :: vdev_info
  vd_chunks :: "Chunk list"

definition m_vdev_create_cb :: "vdev_info \<Rightarrow> bool \<Rightarrow> VirtualDev" where
  "m_vdev_create_cb vinfo load_existing = \<lparr>vd_info = vinfo, vd_chunks = []\<rparr>"

definition add_chunk :: "Chunk \<Rightarrow> VirtualDev \<Rightarrow> VirtualDev" where
  "add_chunk chunk vdev = vdev\<lparr>vd_chunks := vd_chunks vdev @ [chunk]\<rparr>"

text \<open>
  The manager. A \<open>PhysicalDev*\<close> is the slot of the device in \<open>m_all_pdevs\<close>;
  \<open>m_pdevs_by_type\<close> is the map from a tier to the devices of that tier, in the order they
  were opened; \<open>warnings\<close> collects what \<open>LOGWARN\<close> prints in \<open>load_vdevs\<close>, as the pair of
  the chunk id and the VDev id of the message.
\<close>

record DeviceManager =
  m_dev_infos :: "dev_info list"
  m_first_blk_hdr :: first_block_header
  m_all_pdevs :: "PhysicalDev option list"
  m_pdevs_by_type :: "HSDevType \<Rightarrow> nat list option"
  m_vdevs :: "VirtualDev option list"
  m_vdev_id_bm :: "bool list"
  m_chunk_id_bm :: "bool list"
  m_chunks :: "nat \<Rightarrow> Chunk option"
  warnings :: "(nat \<times> nat) list"

subsection \<open>load_devices\<close>

text \<open>
  The loop of \<open>load_devices\<close> over the presented devices (lines 151 to 171). The system
  UUIDs are compared through their printed form, which is one to one.
\<close>

fun load_devices_loop :: "media \<Rightarrow> dev_info list \<Rightarrow> DeviceManager \<Rightarrow> hs_error + DeviceManager" where
  "load_devices_loop m [] dm = Inr dm"
| "load_devices_loop m (d # ds) dm =
     (let fblk = read_first_block m (dev_name d);
          pinfo = this_pdev_hdr fblk
      in if pinfo_system_uuid pinfo \<noteq> system_uuid (m_first_blk_hdr dm)
         then Inl (RelAssert ''Device has uuid stamp different than this instance uuid'')
         else
           let pdev = PhysicalDev_ctor m d pinfo;
               vec = (case m_pdevs_by_type dm (dev_type d) of None \<Rightarrow> [] | Some v \<Rightarrow> v);
               dm1 = dm\<lparr>m_pdevs_by_type := (m_pdevs_by_type dm)(dev_type d \<mapsto> vec @ [pdev_id pinfo]),
                        m_all_pdevs := sv_set (m_all_pdevs dm) (pdev_id pinfo) (Some pdev)\<rparr>
           in load_devices_loop m ds dm1)"

subsection \<open>load_vdevs\<close>

text \<open>
  \<open>read_vdev_infos\<close>: the slots of the VDev super-block region of the first device of a
  tier. A slot with a checksum is checked against \<open>crc16_t10dif\<close> of the slot with the
  checksum field zeroed (the function is a parameter: it is not in the sources), and the
  allocated slots are returned.
\<close>

fun read_vdev_infos_loop ::
  "(vdev_info \<Rightarrow> nat) \<Rightarrow> vdev_info list \<Rightarrow> hs_error + vdev_info list" where
  "read_vdev_infos_loop crc16_t10dif [] = Inr []"
| "read_vdev_infos_loop crc16_t10dif (vinfo # rest) =
     (if checksum vinfo \<noteq> 0 \<and> crc16_t10dif (vinfo\<lparr>checksum := 0\<rparr>) \<noteq> checksum vinfo
      then Inl (RelAssert ''VDev mismatch on crc'')
      else
        (case read_vdev_infos_loop crc16_t10dif rest of
           Inl e \<Rightarrow> Inl e
         | Inr ret_vinfos \<Rightarrow>
             Inr (if slot_allocated vinfo then vinfo # ret_vinfos else ret_vinfos)))"

definition read_vdev_infos ::
  "(vdev_info \<Rightarrow> nat) \<Rightarrow> nat list \<Rightarrow> DeviceManager \<Rightarrow> hs_error + vdev_info list" where
  "read_vdev_infos crc16_t10dif pdevs dm =
     (case pdevs of
        [] \<Rightarrow> Inl (OutOfRange ''pdevs[0]'')
      | p # _ \<Rightarrow>
          (case fst (sv_at (m_all_pdevs dm) p) of
             None \<Rightarrow> Inl NullDeref
           | Some pdev \<Rightarrow> read_vdev_infos_loop crc16_t10dif (pd_vdev_sb pdev)))"

fun load_vdev_infos :: "vdev_info list \<Rightarrow> DeviceManager \<Rightarrow> DeviceManager" where
  "load_vdev_infos [] dm = dm"
| "load_vdev_infos (vinfo # rest) dm =
     load_vdev_infos rest
       (dm\<lparr>m_vdev_id_bm := set_bit_bm (m_vdev_id_bm dm) (vdev_id vinfo),
           m_vdevs := sv_set (m_vdevs dm) (vdev_id vinfo) (Some (m_vdev_create_cb vinfo True))\<rparr>)"

text \<open>The first loop of \<open>load_vdevs\<close> (lines 279 to 286), over the tiers of the map in key order.\<close>

fun load_vdevs_tiers ::
  "(vdev_info \<Rightarrow> nat) \<Rightarrow> HSDevType list \<Rightarrow> DeviceManager \<Rightarrow> hs_error + DeviceManager" where
  "load_vdevs_tiers crc16_t10dif [] dm = Inr dm"
| "load_vdevs_tiers crc16_t10dif (dtype # rest) dm =
     (case m_pdevs_by_type dm dtype of
        None \<Rightarrow> load_vdevs_tiers crc16_t10dif rest dm
      | Some pdevs \<Rightarrow>
          (case read_vdev_infos crc16_t10dif pdevs dm of
             Inl e \<Rightarrow> Inl e
           | Inr vdev_infos \<Rightarrow> load_vdevs_tiers crc16_t10dif rest (load_vdev_infos vdev_infos dm)))"

text \<open>
  The callback \<open>load_vdevs\<close> gives to \<open>load_chunks\<close> (lines 291 to 304): the result is what
  the callback returns and the manager after it.
\<close>

definition load_chunk_cb :: "Chunk \<Rightarrow> DeviceManager \<Rightarrow> bool \<times> DeviceManager" where
  "load_chunk_cb chunk dm =
     (let (slot, vdevs1) = sv_at (m_vdevs dm) (chunk_vdev_id chunk);
          dm1 = dm\<lparr>m_vdevs := vdevs1\<rparr>
      in case slot of
           None \<Rightarrow> (False, dm1\<lparr>warnings := warnings dm1 @ [(chunk_id chunk, chunk_vdev_id chunk)]\<rparr>)
         | Some vdev \<Rightarrow>
             (True,
              dm1\<lparr>m_chunk_id_bm := set_bit_bm (m_chunk_id_bm dm1) (chunk_id chunk),
                  m_chunks := (m_chunks dm1)(chunk_id chunk \<mapsto> chunk),
                  m_vdevs := (m_vdevs dm1)[chunk_vdev_id chunk := Some (add_chunk chunk vdev)]\<rparr>))"

fun load_chunks :: "Chunk list \<Rightarrow> DeviceManager \<Rightarrow> DeviceManager" where
  "load_chunks [] dm = dm"
| "load_chunks (chunk # rest) dm = load_chunks rest (snd (load_chunk_cb chunk dm))"

text \<open>The second loop of \<open>load_vdevs\<close> (lines 290 to 305), over every slot of \<open>m_all_pdevs\<close>.\<close>

fun load_vdevs_chunks :: "PhysicalDev option list \<Rightarrow> DeviceManager \<Rightarrow> hs_error + DeviceManager" where
  "load_vdevs_chunks [] dm = Inr dm"
| "load_vdevs_chunks (pdev # rest) dm =
     (case pdev of
        None \<Rightarrow> Inl NullDeref
      | Some p \<Rightarrow> load_vdevs_chunks rest (load_chunks (pd_chunks p) dm))"

definition load_vdevs :: "(vdev_info \<Rightarrow> nat) \<Rightarrow> DeviceManager \<Rightarrow> hs_error + DeviceManager" where
  "load_vdevs crc16_t10dif dm =
     (case load_vdevs_tiers crc16_t10dif [Data, Fast] dm of
        Inl e \<Rightarrow> Inl e
      | Inr dm1 \<Rightarrow>
          if length (m_vdevs dm1) \<noteq> 0 then load_vdevs_chunks (m_all_pdevs dm1) dm1
          else Inr dm1)"

text \<open>
  \<open>load_devices\<close>. \<open>CURRENT_SUPERBLOCK_VERSION\<close> is a constant of the header of the first
  block, which is not in the sources: a parameter.
\<close>

definition load_devices ::
  "nat \<Rightarrow> (vdev_info \<Rightarrow> nat) \<Rightarrow> media \<Rightarrow> DeviceManager \<Rightarrow> hs_error + DeviceManager" where
  "load_devices CURRENT_SUPERBLOCK_VERSION crc16_t10dif m dm =
     (if version (m_first_blk_hdr dm) \<noteq> CURRENT_SUPERBLOCK_VERSION
      then Inl (RelAssert ''superblock version upgrade is not supported yet'')
      else if num_pdevs (m_first_blk_hdr dm) \<noteq> length (m_dev_infos dm)
      then Inl (RelAssert ''Homestore does not support dynamic addition/removal of devices'')
      else
        (case load_devices_loop m (m_dev_infos dm) dm of
           Inl e \<Rightarrow> Inl e
         | Inr dm1 \<Rightarrow> load_vdevs crc16_t10dif dm1))"

subsection \<open>create_vdev\<close>

definition pdevs_by_type_internal :: "HSDevType \<Rightarrow> DeviceManager \<Rightarrow> nat list option" where
  "pdevs_by_type_internal dtype dm =
     (case m_pdevs_by_type dm dtype of
        None \<Rightarrow> m_pdevs_by_type dm Data
      | Some pdevs \<Rightarrow> Some pdevs)"

definition pdev_streams :: "DeviceManager \<Rightarrow> nat \<Rightarrow> nat" where
  "pdev_streams dm p =
     (case fst (sv_at (m_all_pdevs dm) p) of None \<Rightarrow> 0 | Some pdev \<Rightarrow> unat (num_streams pdev))"

text \<open>
  Lines 194 to 205: the devices the VDev is placed on and the number of chunks the
  placement asks for. \<open>pdevs\<close> is not empty here and \<open>n\<close>, the value of the \<open>uint32_t\<close>
  \<open>vparam.num_chunks\<close>, is below \<open>2^32\<close>. The streams are summed in an \<open>unsigned\<close>
  (\<open>std::accumulate\<close> from \<open>0u\<close>), so the sum wraps around at \<open>2^32\<close>; \<open>sisl::round_up\<close> and
  the product with \<open>pdevs.size()\<close> are 64 bits wide, and the result is stored back into
  the \<open>uint32_t\<close>, which keeps its low 32 bits.
\<close>

definition identify_num_chunks ::
  "DeviceManager \<Rightarrow> vdev_multi_pdev_opts_t \<Rightarrow> nat list \<Rightarrow> nat \<Rightarrow> hs_error + (nat list \<times> nat)" where
  "identify_num_chunks dm opts pdevs n =
     (if opts = ALL_PDEV_STRIPED then
        (let total_streams = foldl (\<lambda>r a. (r + pdev_streams dm a) mod 2 ^ 32) 0 pdevs
         in if total_streams = 0 then Inl DivideByZero
            else Inr (pdevs, round_up n total_streams mod 2 ^ 32))
      else if opts = ALL_PDEV_MIRRORED then
        (if pdev_streams dm (hd pdevs) = 0 then Inl DivideByZero
         else Inr (pdevs, (round_up n (pdev_streams dm (hd pdevs)) * length pdevs) mod 2 ^ 32))
      else if opts = SINGLE_FIRST_PDEV then Inr ([hd pdevs], n)
      else Inr ([hd pdevs], n))"

text \<open>
  Lines 207 to 227: the number of chunks is cut to what the devices can hold
  (\<open>hs_super_blk::max_chunks_in_pdev\<close> is not in the sources: a parameter, which returns
  a \<open>uint32_t\<close>), the size is rounded up, and the size of a chunk is the quotient, kept in a
  \<open>uint32_t\<close>. \<open>max_num_chunks\<close> is a \<open>uint32_t\<close>, so the sum wraps around at \<open>2^32\<close>, and so
  does the product of the two \<open>uint32_t\<close> \<open>num_chunks\<close> and \<open>blk_size\<close>; when that product
  is zero, \<open>sisl::round_up\<close> divides by zero. \<open>n\<close> and \<open>bsize\<close> are below \<open>2^32\<close>, \<open>vsize\<close>
  is below \<open>2^64\<close>. The result is the number of chunks, the size of the VDev and the size
  of a chunk.
\<close>

definition adjust_size ::
  "(dev_info \<Rightarrow> 32 word) \<Rightarrow> dev_info list \<Rightarrow> nat \<Rightarrow> nat \<Rightarrow> nat \<Rightarrow> hs_error + (nat \<times> nat \<times> nat)" where
  "adjust_size max_chunks_in_pdev dev_infos n vsize bsize =
     (let max_num_chunks = foldl (\<lambda>r d. (r + unat (max_chunks_in_pdev d)) mod 2 ^ 32) 0 dev_infos;
          n1 = min n max_num_chunks;
          multiple = (n1 * bsize) mod 2 ^ 32
      in if multiple = 0 then Inl DivideByZero
         else
           let vsize1 = round_up vsize multiple;
               csize = (vsize1 div n1) mod 2 ^ 32
           in Inr (n1, vsize1, csize))"

definition populate_vdev_info ::
  "(vdev_info \<Rightarrow> nat) \<Rightarrow> vdev_parameters \<Rightarrow> nat \<Rightarrow> nat list \<Rightarrow> vdev_info" where
  "populate_vdev_info crc16_t10dif vparam vid pdevs =
     (let out_info =
            \<lparr>vdev_id = vid, vdev_size = unat (vp_vdev_size vparam),
             num_mirrors = (if multi_pdev_opts vparam = ALL_PDEV_MIRRORED then length pdevs else 0),
             blk_size = unat (vp_blk_size vparam),
             num_primary_chunks = (if multi_pdev_opts vparam = ALL_PDEV_STRIPED then length pdevs else 1),
             slot_allocated = True, vinfo_dev_type = vp_dev_type vparam,
             pdev_choice = multi_pdev_opts vparam, vinfo_name = vdev_name vparam,
             user_private = context_data vparam, alloc_type = vp_alloc_type vparam,
             chunk_sel_type = vp_chunk_sel_type vparam, checksum = 0\<rparr>
      in out_info\<lparr>checksum := crc16_t10dif out_info\<rparr>)"

fun alloc_chunk_ids :: "nat \<Rightarrow> bool list \<Rightarrow> hs_error + (nat list \<times> bool list)" where
  "alloc_chunk_ids 0 bm = Inr ([], bm)"
| "alloc_chunk_ids (Suc c) bm =
     (case get_next_reset_bit bm 0 of
        None \<Rightarrow> Inl (OutOfRange ''System has no room for additional chunks'')
      | Some cid \<Rightarrow>
          (case alloc_chunk_ids c (set_bit_bm bm cid) of
             Inl e \<Rightarrow> Inl e
           | Inr (chunk_ids, bm1) \<Rightarrow> Inr (cid # chunk_ids, bm1)))"

fun add_chunks :: "Chunk list \<Rightarrow> nat \<Rightarrow> DeviceManager \<Rightarrow> DeviceManager" where
  "add_chunks [] vid dm = dm"
| "add_chunks (chunk # rest) vid dm =
     add_chunks rest vid
       (dm\<lparr>m_vdevs := (m_vdevs dm)[vid := map_option (add_chunk chunk) (m_vdevs dm ! vid)],
           m_chunks := (m_chunks dm)(chunk_id chunk \<mapsto> chunk)\<rparr>)"

text \<open>Lines 245 to 262: the chunks of the new VDev, \<open>per_pdev\<close> of them on each device.\<close>

fun create_vdev_chunks :: "nat list \<Rightarrow> nat \<Rightarrow> nat \<Rightarrow> nat \<Rightarrow> DeviceManager \<Rightarrow> hs_error + DeviceManager" where
  "create_vdev_chunks [] per_pdev vid csize dm = Inr dm"
| "create_vdev_chunks (p # rest) per_pdev vid csize dm =
     (case alloc_chunk_ids per_pdev (m_chunk_id_bm dm) of
        Inl e \<Rightarrow> Inl e
      | Inr (chunk_ids, bm1) \<Rightarrow>
          (case fst (sv_at (m_all_pdevs dm) p) of
             None \<Rightarrow> Inl NullDeref
           | Some pdev \<Rightarrow>
               let (chunks, pdev1) = create_chunks chunk_ids vid csize pdev;
                   dm1 = dm\<lparr>m_chunk_id_bm := bm1,
                            m_all_pdevs := (m_all_pdevs dm)[p := Some pdev1]\<rparr>
               in create_vdev_chunks rest per_pdev vid csize (add_chunks chunks vid dm1)))"

fun write_vdev_info :: "nat list \<Rightarrow> vdev_info \<Rightarrow> DeviceManager \<Rightarrow> DeviceManager" where
  "write_vdev_info [] vinfo dm = dm"
| "write_vdev_info (p # rest) vinfo dm =
     write_vdev_info rest vinfo
       (dm\<lparr>m_all_pdevs := (m_all_pdevs dm)[p := map_option (write_vdev_super_block vinfo)
                                                   (m_all_pdevs dm ! p)]\<rparr>)"

definition create_vdev ::
  "(dev_info \<Rightarrow> 32 word) \<Rightarrow> (vdev_info \<Rightarrow> nat) \<Rightarrow> vdev_parameters \<Rightarrow> DeviceManager \<Rightarrow>
     hs_error + (VirtualDev \<times> DeviceManager)" where
  "create_vdev max_chunks_in_pdev crc16_t10dif vparam dm =
     (case get_next_reset_bit (m_vdev_id_bm dm) 0 of
        None \<Rightarrow> Inl (OutOfRange ''System has no room for additional vdev'')
      | Some vid \<Rightarrow>
          let dm1 = dm\<lparr>m_vdev_id_bm := set_bit_bm (m_vdev_id_bm dm) vid\<rparr> in
          (case pdevs_by_type_internal (vp_dev_type vparam) dm1 of
             None \<Rightarrow> Inl NullDeref
           | Some all_pdevs \<Rightarrow>
               if \<not> length all_pdevs > 0
               then Inl (RelAssert ''Unable to find any pdevs for even data tier'')
               else
                 (case identify_num_chunks dm1 (multi_pdev_opts vparam) all_pdevs
                         (unat (num_chunks vparam)) of
                    Inl e \<Rightarrow> Inl e
                  | Inr (pdevs, n) \<Rightarrow>
                      (case adjust_size max_chunks_in_pdev (m_dev_infos dm1) n
                              (unat (vp_vdev_size vparam)) (unat (vp_blk_size vparam)) of
                         Inl e \<Rightarrow> Inl e
                       | Inr (n1, vsize1, csize) \<Rightarrow>
                           let vparam1 = vparam\<lparr>num_chunks := of_nat n1, vp_vdev_size := of_nat vsize1\<rparr>;
                               vinfo = populate_vdev_info crc16_t10dif vparam1 vid pdevs;
                               vdev = m_vdev_create_cb vinfo False;
                               dm2 = dm1\<lparr>m_vdevs := sv_set (m_vdevs dm1) vid (Some vdev)\<rparr>
                           in (case create_vdev_chunks pdevs (n1 div length pdevs) vid csize dm2 of
                                 Inl e \<Rightarrow> Inl e
                               | Inr dm3 \<Rightarrow>
                                   let dm4 = write_vdev_info pdevs vinfo dm3
                                   in (case m_vdevs dm4 ! vid of
                                         None \<Rightarrow> Inl NullDeref
                                       | Some v \<Rightarrow> Inr (v, dm4)))))))"

section \<open>Lookups of the earlier device manager (src/device/device.h)\<close>

text \<open>
  \<open>get_chunk\<close>, \<open>get_chunk_mutable\<close> and \<open>get_pdev\<close> of the header. The result is a pointer
  (\<open>None\<close>: null). The container and its \<open>operator[]\<close> (\<open>homeds::sparse_vector\<close>, not in
  the sources) are parameters; indexing may fail, on a slot out of range.
\<close>

definition INVALID_CHUNK_ID :: "32 word" where
  "INVALID_CHUNK_ID = 0xFFFFFFFF"

definition INVALID_PDEV_ID :: "32 word" where
  "INVALID_PDEV_ID = 0xFFFFFFFF"

definition get_chunk ::
  "('v \<Rightarrow> 32 word \<Rightarrow> hs_error + 'p option) \<Rightarrow> 'v \<Rightarrow> 32 word \<Rightarrow> hs_error + 'p option" where
  "get_chunk index_op m_chunks_vec cid =
     (if cid = INVALID_CHUNK_ID then Inr None else index_op m_chunks_vec cid)"

definition get_chunk_mutable ::
  "('v \<Rightarrow> 32 word \<Rightarrow> hs_error + 'p option) \<Rightarrow> 'v \<Rightarrow> 32 word \<Rightarrow> hs_error + 'p option" where
  "get_chunk_mutable index_op m_chunks_vec cid =
     (if cid = INVALID_CHUNK_ID then Inr None else index_op m_chunks_vec cid)"

definition get_pdev ::
  "('v \<Rightarrow> 32 word \<Rightarrow> hs_error + 'p option) \<Rightarrow> 'v \<Rightarrow> 32 word \<Rightarrow> hs_error + 'p option" where
  "get_pdev index_op m_pdevs_vec pid =
     (if pid = INVALID_PDEV_ID then Inr None else index_op m_pdevs_vec pid)"

subsection \<open>What the manager has opened\<close>





text \<open>A VDev is there when its slot in \<open>m_vdevs\<close> exists and is not null.\<close>

definition vdev_present :: "DeviceManager \<Rightarrow> nat \<Rightarrow> bool" where
  "vdev_present dm v \<longleftrightarrow> v < length (m_vdevs dm) \<and> m_vdevs dm ! v \<noteq> None"

text \<open>The chunks recorded on the opened devices, in the order \<open>load_vdevs\<close> visits them.\<close>

definition all_chunks :: "PhysicalDev option list \<Rightarrow> Chunk list" where
  "all_chunks pdevs = concat (map (\<lambda>p. case p of None \<Rightarrow> [] | Some pdev \<Rightarrow> pd_chunks pdev) pdevs)"

text \<open>
  What handing the chunks \<open>cs\<close> to the callback of \<open>load_vdevs\<close>, one after the other,
  makes of the manager \<open>dm\<close>: no VDev appears or disappears; every VDev that is there
  gets the chunks recorded for it, in order; the bits marked in the chunk bitmap are those
  of the chunks whose VDev is there; a warning is logged for every other chunk; and
  \<open>m_chunks\<close> maps an id to the last chunk of that id whose VDev is there.
\<close>

definition chunks_loaded :: "DeviceManager \<Rightarrow> Chunk list \<Rightarrow> DeviceManager \<Rightarrow> bool" where
  "chunks_loaded dm cs dm' \<longleftrightarrow>
     (\<forall>v. vdev_present dm' v \<longleftrightarrow> vdev_present dm v) \<and>
     (\<forall>v vd. vdev_present dm v \<and> m_vdevs dm ! v = Some vd \<longrightarrow>
        m_vdevs dm' ! v = Some (vd\<lparr>vd_chunks := vd_chunks vd @ filter (\<lambda>c. chunk_vdev_id c = v) cs\<rparr>)) \<and>
     length (m_chunk_id_bm dm') = length (m_chunk_id_bm dm) \<and>
     (\<forall>i<length (m_chunk_id_bm dm).
        m_chunk_id_bm dm' ! i \<longleftrightarrow>
          m_chunk_id_bm dm ! i \<or> (\<exists>c\<in>set cs. vdev_present dm (chunk_vdev_id c) \<and> chunk_id c = i)) \<and>
     warnings dm' = warnings dm @
        map (\<lambda>c. (chunk_id c, chunk_vdev_id c)) (filter (\<lambda>c. \<not> vdev_present dm (chunk_vdev_id c)) cs) \<and>
     (\<forall>k. m_chunks dm' k =
        (case filter (\<lambda>c. vdev_present dm (chunk_vdev_id c) \<and> chunk_id c = k) cs of
           [] \<Rightarrow> m_chunks dm k
         | x # xs \<Rightarrow> Some (last (x # xs)))) \<and>
     m_all_pdevs dm' = m_all_pdevs dm \<and> m_vdev_id_bm dm' = m_vdev_id_bm dm \<and>
     m_pdevs_by_type dm' = m_pdevs_by_type dm"



subsection \<open>Devices to test with\<close>

text \<open>
  Two devices of the data tier, formatted together (system UUID 42, super-block version
  1), with one stream each. VDev 0 is striped over both, in four chunks of 128 MiB, two
  on each device. The first device also records chunk 4 for a VDev 1 that was never
  written to the VDev table. \<open>ex_crc16\<close> stands in for \<open>crc16_t10dif\<close>.
  \<open>ex_media_bad_crc\<close> is the same media with the checksum of VDev 0 off by one.
\<close>

definition ex_crc16 :: "vdev_info \<Rightarrow> nat" where
  "ex_crc16 v = (vdev_id v + vdev_size v + blk_size v) mod 65535 + 1"

definition ex_hdr :: first_block_header where
  "ex_hdr = \<lparr>gen_number = 1, version = 1, num_pdevs = 2, max_vdevs = 2,
             max_system_chunks = 8, system_uuid = 42\<rparr>"

definition ex_dev :: "string \<Rightarrow> dev_info" where
  "ex_dev name = \<lparr>dev_name = name, dev_type = Data, dev_size = 1073741824\<rparr>"

definition ex_vinfo0 :: vdev_info where
  "ex_vinfo0 =
     \<lparr>vdev_id = 0, vdev_size = 536870912, num_mirrors = 0, blk_size = 4096,
      num_primary_chunks = 2, slot_allocated = True, vinfo_dev_type = Data,
      pdev_choice = ALL_PDEV_STRIPED, vinfo_name = ''vd0'', user_private = [],
      alloc_type = 0, chunk_sel_type = 0, checksum = 12289\<rparr>"

definition ex_free_slot :: vdev_info where
  "ex_free_slot =
     \<lparr>vdev_id = 0, vdev_size = 0, num_mirrors = 0, blk_size = 0,
      num_primary_chunks = 0, slot_allocated = False, vinfo_dev_type = Data,
      pdev_choice = ALL_PDEV_STRIPED, vinfo_name = [], user_private = [],
      alloc_type = 0, chunk_sel_type = 0, checksum = 0\<rparr>"

definition ex_chunk :: "nat \<Rightarrow> nat \<Rightarrow> nat \<Rightarrow> Chunk" where
  "ex_chunk cid pid vid =
     \<lparr>chunk_id = cid, chunk_pdev_id = pid, chunk_vdev_id = vid, chunk_size = 134217728\<rparr>"

definition ex_fblk :: "nat \<Rightarrow> first_block" where
  "ex_fblk pid = \<lparr>is_valid = True, hdr = ex_hdr,
                  this_pdev_hdr = \<lparr>pdev_id = pid, pinfo_system_uuid = 42\<rparr>\<rparr>"

definition ex_media :: media where
  "ex_media name =
     (if name = ''d0''
      then \<lparr>md_first_block = ex_fblk 0, md_num_streams = 1,
            md_vdev_sb = [ex_vinfo0, ex_free_slot],
            md_chunks = [ex_chunk 0 0 0, ex_chunk 2 0 0, ex_chunk 4 0 1]\<rparr>
      else \<lparr>md_first_block = ex_fblk 1, md_num_streams = 1,
            md_vdev_sb = [ex_vinfo0, ex_free_slot],
            md_chunks = [ex_chunk 1 1 0, ex_chunk 3 1 0]\<rparr>)"


text \<open>
  \<open>ex_media_no_vdev\<close> is the same media with no VDev written to the VDev table at all: the
  five chunks are recorded, none of their VDevs is.
\<close>

definition ex_media_no_vdev :: media where
  "ex_media_no_vdev name = (ex_media name)\<lparr>md_vdev_sb := [ex_free_slot, ex_free_slot]\<rparr>"

definition ex_dm :: DeviceManager where
  "ex_dm =
     \<lparr>m_dev_infos = [ex_dev ''d0'', ex_dev ''d1''], m_first_blk_hdr = ex_hdr,
      m_all_pdevs = [], m_pdevs_by_type = (\<lambda>ty. None), m_vdevs = [],
      m_vdev_id_bm = [False, False],
      m_chunk_id_bm = [False, False, False, False, False, False, False, False],
      m_chunks = (\<lambda>k. None), warnings = []\<rparr>"

definition ex_pdev :: "nat \<Rightarrow> PhysicalDev" where
  "ex_pdev pid =
     \<lparr>pd_dev_info = ex_dev (if pid = 0 then ''d0'' else ''d1''),
      pd_pinfo = \<lparr>pdev_id = pid, pinfo_system_uuid = 42\<rparr>, num_streams = 1,
      pd_vdev_sb = [ex_vinfo0, ex_free_slot],
      pd_chunks = (if pid = 0 then [ex_chunk 0 0 0, ex_chunk 2 0 0, ex_chunk 4 0 1]
                   else [ex_chunk 1 1 0, ex_chunk 3 1 0])\<rparr>"

text \<open>\<open>ex_dm\<close> with both devices opened, and after \<open>load_vdevs\<close>.\<close>

definition ex_dm_opened :: DeviceManager where
  "ex_dm_opened =
     ex_dm\<lparr>m_all_pdevs := [Some (ex_pdev 0), Some (ex_pdev 1)],
           m_pdevs_by_type := (\<lambda>ty. None)(Data \<mapsto> [0, 1])\<rparr>"

definition ex_dm_loaded :: DeviceManager where
  "ex_dm_loaded =
     ex_dm_opened\<lparr>
       m_vdevs := [Some \<lparr>vd_info = ex_vinfo0,
                         vd_chunks = [ex_chunk 0 0 0, ex_chunk 2 0 0, ex_chunk 1 1 0, ex_chunk 3 1 0]\<rparr>,
                   None],
       m_vdev_id_bm := [True, False],
       m_chunk_id_bm := [True, True, True, True, False, False, False, False],
       m_chunks := (\<lambda>k. None)(0 \<mapsto> ex_chunk 0 0 0, 2 \<mapsto> ex_chunk 2 0 0,
                                 1 \<mapsto> ex_chunk 1 1 0, 3 \<mapsto> ex_chunk 3 1 0),
       warnings := [(4, 1)]\<rparr>"

definition ex_dm_tiers :: DeviceManager where
  "ex_dm_tiers =
     ex_dm_opened\<lparr>m_vdevs := [Some \<lparr>vd_info = ex_vinfo0, vd_chunks = []\<rparr>],
                  m_vdev_id_bm := [True, False]\<rparr>"

text \<open>
  The same two devices just formatted, with two streams each and no VDev yet, and the
  parameters of a striped VDev of \<open>vsize\<close> bytes in \<open>n\<close> chunks, with blocks of \<open>bsize\<close> bytes.
\<close>

definition ex_pdev_fresh :: "nat \<Rightarrow> PhysicalDev" where
  "ex_pdev_fresh pid =
     \<lparr>pd_dev_info = ex_dev (if pid = 0 then ''d0'' else ''d1''),
      pd_pinfo = \<lparr>pdev_id = pid, pinfo_system_uuid = 42\<rparr>, num_streams = 2,
      pd_vdev_sb = [ex_free_slot, ex_free_slot], pd_chunks = []\<rparr>"

definition ex_dm_formatted :: DeviceManager where
  "ex_dm_formatted =
     ex_dm\<lparr>m_all_pdevs := [Some (ex_pdev_fresh 0), Some (ex_pdev_fresh 1)],
           m_pdevs_by_type := (\<lambda>ty. None)(Data \<mapsto> [0, 1])\<rparr>"

definition ex_vparam :: "64 word \<Rightarrow> 32 word \<Rightarrow> 32 word \<Rightarrow> vdev_parameters" where
  "ex_vparam vsize n bsize =
     \<lparr>vdev_name = ''vd0'', vp_vdev_size = vsize, num_chunks = n, vp_blk_size = bsize,
      vp_dev_type = Data, vp_alloc_type = 0, vp_chunk_sel_type = 0,
      multi_pdev_opts = ALL_PDEV_STRIPED, context_data = []\<rparr>"


lemma consumer_calls_mem:
  "e \<in> set (consumer_calls mk cs k) \<longleftrightarrow> (\<exists>i<length cs. cs ! i \<noteq> None \<and> e = mk (k + i))"
proof (induction cs arbitrary: k)
  case Nil
  then show ?case by simp
next
  case (Cons c cs)
  show ?case using Cons.IH [of "Suc k"] by (cases c) (auto simp: Ex_less_Suc2)
qed

lemma consumer_calls_length:
  "length (consumer_calls mk cs k) = length (filter (\<lambda>c. c \<noteq> None) cs)"
  by (induction cs arbitrary: k) (auto split: option.splits)

lemma cp_io_exit_prepare:
  assumes "heap s a = Some cp" "m_cp_status cp = cp_flush_prepare" "0 < m_enter_cnt cp"
  shows "cp_io_exit a s =
     Inr (if m_enter_cnt cp = 1
          then s\<lparr>heap := (heap s)(a \<mapsto> cp\<lparr>m_enter_cnt := 0, m_cp_status := cp_flushing\<rparr>),
                 trace := trace s @ consumer_calls (\<lambda>idx. EvCpFlush idx a) (m_cp_cb_table s) 0\<rparr>
          else s\<lparr>heap := (heap s)(a \<mapsto> cp\<lparr>m_enter_cnt := m_enter_cnt cp - 1\<rparr>)\<rparr>)"
  using assms by (simp add: cp_io_exit_def cp_start_flush_def set_cp_def Let_def)


lemma switchover_loop_length:
  "length (switchover_loop cs k cur new ctxs) = length ctxs"
  by (induction cs arbitrary: k ctxs) (auto split: option.splits)

lemma switchover_loop_nth:
  "j < length ctxs \<Longrightarrow>
   switchover_loop cs k cur new ctxs ! j =
     (if k \<le> j \<and> j < k + length cs
      then (case cs ! (j - k) of None \<Rightarrow> ctxs ! j
            | Some cb \<Rightarrow> Some (on_switchover_cp cb (Some cur) new))
      else ctxs ! j)"
proof (induction cs arbitrary: k ctxs)
  case Nil
  then show ?case by auto
next
  case (Cons c cs)
  show ?case
  proof (cases c)
    case None
    then show ?thesis using Cons.IH [of ctxs "Suc k"] Cons.prems
      by (auto simp: nth_Cons' Suc_diff_le not_less_eq_eq le_Suc_eq)
  next
    case (Some cb)
    then show ?thesis
      using Cons.IH [of "ctxs[k := Some (on_switchover_cp cb (Some cur) new)]" "Suc k"] Cons.prems
      by (auto simp: nth_Cons' nth_list_update Suc_diff_le not_less_eq_eq le_Suc_eq split: option.splits)
  qed
qed

lemma trigger_switchover_eq:
  assumes "heap s cur = Some c" "next_addr s \<noteq> cur"
  shows "trigger_switchover cur s =
     Inr (if m_cp_waiting_to_trigger c then MakeFuture True else GetFuture (Suc (length (promises s))),
          next_addr s,
          s\<lparr>m_cur_cp := Some (next_addr s),
            next_addr := Suc (next_addr s),
            promises := promises s @ (if m_cp_waiting_to_trigger c then [None] else [None, None]),
            heap := (heap s)
              (cur \<mapsto> c\<lparr>m_cp_status := cp_flush_prepare,
                        m_comp_promise := (if m_cp_waiting_to_trigger c then m_comp_promise c
                                           else Suc (length (promises s)))\<rparr>,
               next_addr s \<mapsto>
                 \<lparr>m_cp_id = m_cp_id c + 1, m_cp_status = cp_io_ready, m_enter_cnt = 0,
                  m_cp_waiting_to_trigger = False, m_comp_promise = length (promises s),
                  m_contexts = switchover_loop (m_cp_cb_table s) 0 (m_cp_id c) (m_cp_id c + 1)
                                 (replicate (length (m_cp_cb_table s)) None)\<rparr>)\<rparr>)"
  using assms
  by (auto simp: trigger_switchover_def new_CP_def new_promise_def set_cp_def Let_def fun_eq_iff)


lemma cp_ref_eq:
  assumes "heap s a = Some c"
    "m_cp_status c = cp_io_ready \<or> m_cp_status c = cp_trigger \<or> m_cp_status c = cp_flush_prepare"
  shows "cp_ref a s = Inr (set_cp a (c\<lparr>m_enter_cnt := m_enter_cnt c + 1\<rparr>) s)"
  using assms by (auto simp: cp_ref_def Let_def)

lemma cp_io_exit_eq:
  assumes "heap s a = Some c" "m_cp_status c \<noteq> cp_flushing"
  shows "cp_io_exit a s =
     Inr (if m_enter_cnt c = 1 \<and> m_cp_status c = cp_flush_prepare
          then s\<lparr>heap := (heap s)(a \<mapsto> c\<lparr>m_enter_cnt := 0, m_cp_status := cp_flushing\<rparr>),
                 trace := trace s @ consumer_calls (\<lambda>idx. EvCpFlush idx a) (m_cp_cb_table s) 0\<rparr>
          else set_cp a (c\<lparr>m_enter_cnt := m_enter_cnt c - 1\<rparr>) s)"
  using assms by (simp add: cp_io_exit_def cp_start_flush_def set_cp_def Let_def)

lemma CPGuard_ctor_eq:
  assumes "m_cur_cp s = Some cur" "heap s cur = Some c"
    "m_cp_status c = cp_io_ready \<or> m_cp_status c = cp_trigger \<or> m_cp_status c = cp_flush_prepare"
    "stk = [] \<or> hd stk = cur"
  shows "CPGuard_ctor stk s = Inr (cur, cur # stk, set_cp cur (c\<lparr>m_enter_cnt := m_enter_cnt c + 1\<rparr>) s)"
  using assms by (cases stk) (auto simp: CPGuard_ctor_def cp_io_enter_def cp_ref_eq)








lemma heap_outside_dom: "dom (heap s) = A \<Longrightarrow> a \<notin> A \<Longrightarrow> heap s a = None"
  by auto






lemma live_cp_set_cp:
  "live_cp s a c \<Longrightarrow> 0 \<le> m_enter_cnt c' \<Longrightarrow> m_comp_promise c' = m_comp_promise c \<Longrightarrow>
   live_cp (set_cp a c' s) a c'"
  by (auto simp: live_cp_def set_cp_def)

lemma live_cp_set_cp_other:
  "live_cp s b d \<Longrightarrow> a \<noteq> b \<Longrightarrow> live_cp (set_cp a c' s) b d"
  by (auto simp: live_cp_def set_cp_def)




























lemma cp_idle_flag [simp]:
  "cp_idle (s\<lparr>m_cp_shutdown_initiated := b\<rparr>) cur c = cp_idle s cur c"
  by (simp add: cp_idle_def live_cp_def)

lemma cp_in_flush_flag [simp]:
  "cp_in_flush (s\<lparr>m_cp_shutdown_initiated := b\<rparr>) cur c old oc = cp_in_flush s cur c old oc"
  by (simp add: cp_in_flush_def live_cp_def)










lemma sb_writes_append [simp]: "sb_writes (xs @ ys) = sb_writes xs + sb_writes ys"
  by (induction xs) (auto split: event.splits)

lemma sb_writes_flush_calls [simp]:
  "sb_writes (consumer_calls (\<lambda>idx. EvCpFlush idx a) cs k) = 0"
  by (induction cs arbitrary: k) (auto split: option.splits)

lemma sb_writes_cleanup_calls [simp]:
  "sb_writes (consumer_calls (\<lambda>idx. EvCpCleanup idx a) cs k) = 0"
  by (induction cs arbitrary: k) (auto split: option.splits)

lemma cp_frame_refl: "cp_frame s s"
  by (auto simp: cp_frame_def)











lemma replicate_2: "replicate 2 x = [x, x]"
  by (simp add: numeral_2_eq_2)

lemma ex_boot:
  "\<exists>s0 s1. on_meta_blk_found 7 1 ex_sb (CPManager_ctor 2 10) = Inr s0 \<and>
      register_consumer 0 (Some (ex_cb 50)) s0 = Inr s1 \<and>
      register_consumer 1 (Some (ex_cb 50)) s1 = Inr ex_booted"
  by (simp add: on_meta_blk_found_def create_first_cp_def new_CP_def new_promise_def
      CPManager_ctor_def set_cp_def register_consumer_def ex_booted_def ex_sb_def ex_cb_def
      ex_table_def ex_cp_def Let_def replicate_2 fun_eq_iff)

lemma ex_enter: "cp_io_enter ex_booted = Inr (0, ex_entered)"
  by (simp add: cp_io_enter_def cp_ref_def set_cp_def ex_booted_def ex_entered_def ex_cp_def Let_def)

lemma ex_trigger: "trigger_cp_flush False [] ex_entered = Inr (GetFuture 2, ex_triggered)"
  by (simp add: trigger_cp_flush_def CPGuard_ctor_def CPGuard_dtor_def cp_io_enter_def cp_ref_def
      cp_io_exit_def trigger_switchover_def new_CP_def new_promise_def
      set_cp_def ex_booted_def ex_entered_def ex_triggered_def ex_cp_def ex_table_def ex_cb_def Let_def replicate_2 fun_eq_iff)

lemma ex_exit: "cp_io_exit 0 ex_triggered = Inr ex_flushing"
  by (simp add: cp_io_exit_def cp_start_flush_def
      set_cp_def ex_booted_def ex_flushing_def ex_triggered_def ex_cp_def ex_table_def ex_cb_def Let_def replicate_2 fun_eq_iff)

lemma ex_force: "trigger_cp_flush True [] ex_flushing = Inr (GetFuture 3, ex_forced)"
  by (simp add: trigger_cp_flush_def trigger_back_to_back_def CPGuard_ctor_def CPGuard_dtor_def cp_io_enter_def cp_ref_def
      cp_io_exit_def new_promise_def
      set_cp_def ex_booted_def ex_flushing_def ex_forced_def ex_triggered_def ex_cp_def ex_table_def ex_cb_def Let_def replicate_2 fun_eq_iff)

lemma reachable_step: "reachable s \<Longrightarrow> cp_step s s' \<Longrightarrow> reachable s'"
  unfolding reachable_def by (meson rtranclp.rtrancl_into_rtrancl)

lemma reachable_ex_booted: "reachable ex_booted"
proof -
  from ex_boot obtain s0 s1 where b: "on_meta_blk_found 7 1 ex_sb (CPManager_ctor 2 10) = Inr s0"
    and r1: "register_consumer 0 (Some (ex_cb 50)) s0 = Inr s1"
    and r2: "register_consumer 1 (Some (ex_cb 50)) s1 = Inr ex_booted" by blast
  have "reachable s0" unfolding reachable_def using b by blast
  then have "reachable s1" using r1 by (blast intro: reachable_step step_register)
  then show ?thesis using r2 by (blast intro: reachable_step step_register)
qed

lemma reachable_ex_entered: "reachable ex_entered"
  using reachable_ex_booted ex_enter by (blast intro: reachable_step step_enter)

lemma reachable_ex_triggered: "reachable ex_triggered"
  using reachable_ex_entered ex_trigger by (blast intro: reachable_step step_trigger)

lemma reachable_ex_flushing: "reachable ex_flushing"
proof -
  have "heap ex_triggered 0 = Some (ex_cp 5 cp_flush_prepare 1 False 2 5)"
    "0 < m_enter_cnt (ex_cp 5 cp_flush_prepare 1 False 2 5)"
    by (simp_all add: ex_triggered_def ex_booted_def ex_cp_def)
  then show ?thesis using reachable_ex_triggered ex_exit
    by (blast intro: reachable_step step_exit)
qed

lemma reachable_ex_forced: "reachable ex_forced"
  using reachable_ex_flushing ex_force by (blast intro: reachable_step step_trigger)




text \<open>
  Claim C2. For a checkpoint in state \<open>cp_flush_prepare\<close> with a positive entry count,
  \<open>cp_io_exit\<close> returns, takes one off the entry count, and exactly when the count
  reaches zero it sets the state to \<open>cp_flushing\<close> and (\<open>cp_start_flush\<close>) calls
  \<open>cp_flush\<close> once on every registered consumer and on nothing else; otherwise the state
  stays \<open>cp_flush_prepare\<close> and no consumer is called.
\<close>
theorem cp_io_exit_last_exit_starts_flush:
  assumes "heap s a = Some cp" "m_cp_status cp = cp_flush_prepare" "0 < m_enter_cnt cp"
  shows "\<exists>s' cp' evs. cp_io_exit a s = Inr s' \<and> heap s' a = Some cp' \<and>
           trace s' = trace s @ evs \<and>
           m_enter_cnt cp' = m_enter_cnt cp - 1 \<and>
           (m_enter_cnt cp' = 0 \<longrightarrow>
              m_cp_status cp' = cp_flushing \<and>
              (\<forall>e. e \<in> set evs \<longleftrightarrow>
                 (\<exists>idx<length (m_cp_cb_table s). m_cp_cb_table s ! idx \<noteq> None \<and> e = EvCpFlush idx a)) \<and>
              length evs = length (filter (\<lambda>c. c \<noteq> None) (m_cp_cb_table s))) \<and>
           (m_enter_cnt cp' \<noteq> 0 \<longrightarrow> m_cp_status cp' = cp_flush_prepare \<and> evs = [])"
proof (cases "m_enter_cnt cp = 1")
  case True
  let ?evs = "consumer_calls (\<lambda>idx. EvCpFlush idx a) (m_cp_cb_table s) 0"
  have "cp_io_exit a s = Inr (s\<lparr>heap := (heap s)(a \<mapsto> cp\<lparr>m_enter_cnt := 0, m_cp_status := cp_flushing\<rparr>),
                 trace := trace s @ ?evs\<rparr>)"
    using cp_io_exit_prepare [OF assms] True by simp
  then show ?thesis using True
    by (intro exI [of _ "s\<lparr>heap := (heap s)(a \<mapsto> cp\<lparr>m_enter_cnt := 0, m_cp_status := cp_flushing\<rparr>),
                 trace := trace s @ ?evs\<rparr>"] exI [of _ "cp\<lparr>m_enter_cnt := 0, m_cp_status := cp_flushing\<rparr>"]
        exI [of _ ?evs])
      (simp add: consumer_calls_mem consumer_calls_length)
next
  case False
  have "cp_io_exit a s = Inr (s\<lparr>heap := (heap s)(a \<mapsto> cp\<lparr>m_enter_cnt := m_enter_cnt cp - 1\<rparr>)\<rparr>)"
    using cp_io_exit_prepare [OF assms] False by simp
  then show ?thesis using False assms
    by (intro exI [of _ "s\<lparr>heap := (heap s)(a \<mapsto> cp\<lparr>m_enter_cnt := m_enter_cnt cp - 1\<rparr>)\<rparr>"]
        exI [of _ "cp\<lparr>m_enter_cnt := m_enter_cnt cp - 1\<rparr>"] exI [of _ "[]"])
      simp
qed

theorem cp_io_exit_last_exit_starts_flush_witness:
  "cp_io_exit 0 ex_triggered = Inr ex_flushing \<and>
   m_cp_status (the (heap ex_triggered 0)) = cp_flush_prepare \<and>
   m_enter_cnt (the (heap ex_triggered 0)) = 1 \<and>
   m_cp_status (the (heap ex_flushing 0)) = cp_flushing \<and>
   trace ex_flushing = trace ex_triggered @ [EvCpFlush 0 0, EvCpFlush 1 0]"
proof -
  have h: "heap ex_triggered 0 = Some (ex_cp 5 cp_flush_prepare 1 False 2 5)"
    "m_cp_status (ex_cp 5 cp_flush_prepare 1 False 2 5) = cp_flush_prepare"
    "0 < m_enter_cnt (ex_cp 5 cp_flush_prepare 1 False 2 5)"
    by (simp_all add: ex_triggered_def ex_booted_def ex_cp_def)
  from cp_io_exit_last_exit_starts_flush [OF h]
  obtain s' where "cp_io_exit 0 ex_triggered = Inr s'" by blast
  then show ?thesis using ex_exit
    by (simp add: ex_triggered_def ex_flushing_def ex_booted_def ex_cp_def)
qed


lemma switchover_contexts:
  assumes "idx < length tbl"
  shows "switchover_loop tbl 0 cur new (replicate (length tbl) None) ! idx =
     (case tbl ! idx of None \<Rightarrow> None | Some cb \<Rightarrow> Some (on_switchover_cp cb (Some cur) new))"
  using assms by (simp add: switchover_loop_nth split: option.splits)

text \<open>
  Claim C4. A call of \<open>trigger_cp_flush\<close> that finds no flush in progress returns, and
  at the end of its critical section (\<open>s2\<close>) a new CP exists whose id is the id of the
  current CP plus one, whose context of every registered consumer is what that
  consumer's \<open>on_switchover_cp(old, new)\<close> returned (and empty for a slot with no
  consumer), the old CP is in \<open>cp_flush_prepare\<close>, the new one in \<open>cp_io_ready\<close>, and
  the current-CP pointer is the new CP; it still is when the call returns (\<open>s3\<close>).
\<close>
theorem trigger_cp_flush_switches_over:
  assumes "\<not> m_in_flush_phase s" "m_cur_cp s = Some cur" "heap s cur = Some c"
    "m_cp_status c = cp_io_ready" "t_cp_stack = [] \<or> hd t_cp_stack = cur" "next_addr s \<noteq> cur"
  shows "\<exists>stk s1 fut new s2 s3 old_cp new_cp.
     CPGuard_ctor t_cp_stack (s\<lparr>m_in_flush_phase := True, trace := trace s @ [EvInFlushPhase True]\<rparr>)
       = Inr (cur, stk, s1) \<and>
     trigger_switchover cur s1 = Inr (fut, new, s2) \<and>
     CPGuard_dtor cur s2 = Inr s3 \<and>
     trigger_cp_flush force t_cp_stack s = Inr (fut, s3) \<and>
     new \<noteq> cur \<and> heap s2 cur = Some old_cp \<and> heap s2 new = Some new_cp \<and>
     m_cp_id new_cp = m_cp_id c + 1 \<and>
     length (m_contexts new_cp) = length (m_cp_cb_table s) \<and>
     (\<forall>idx<length (m_cp_cb_table s).
        m_contexts new_cp ! idx =
          (case m_cp_cb_table s ! idx of
             None \<Rightarrow> None
           | Some cb \<Rightarrow> Some (on_switchover_cp cb (Some (m_cp_id c)) (m_cp_id new_cp)))) \<and>
     m_cp_status old_cp = cp_flush_prepare \<and> m_cp_status new_cp = cp_io_ready \<and>
     m_cur_cp s2 = Some new \<and> m_cur_cp s3 = Some new"
proof -
  let ?s0 = "s\<lparr>m_in_flush_phase := True, trace := trace s @ [EvInFlushPhase True]\<rparr>"
  let ?c1 = "c\<lparr>m_enter_cnt := m_enter_cnt c + 1\<rparr>"
  let ?s1 = "set_cp cur ?c1 ?s0"
  have g: "CPGuard_ctor t_cp_stack ?s0 = Inr (cur, cur # t_cp_stack, ?s1)"
    using assms by (intro CPGuard_ctor_eq) auto
  have h1: "heap ?s1 cur = Some ?c1" "next_addr ?s1 \<noteq> cur"
    using assms by (auto simp: set_cp_def)
  note sw = trigger_switchover_eq [OF h1]
  obtain fut new s2 where sw': "trigger_switchover cur ?s1 = Inr (fut, new, s2)"
    using sw by blast
  have new: "new = next_addr s" using sw sw' by (simp add: set_cp_def)
  have s2: "s2 = snd (snd (projr (trigger_switchover cur ?s1)))" using sw' by simp
  let ?old = "?c1\<lparr>m_cp_status := cp_flush_prepare,
                   m_comp_promise := (if m_cp_waiting_to_trigger ?c1 then m_comp_promise ?c1
                                      else Suc (length (promises ?s1)))\<rparr>"
  have ho: "heap s2 cur = Some ?old" using assms(6) unfolding s2 sw by (simp add: set_cp_def)
  obtain new_cp where hn: "heap s2 new = Some new_cp"
    and nid: "m_cp_id new_cp = m_cp_id c + 1" and nst: "m_cp_status new_cp = cp_io_ready"
    and nctx: "m_contexts new_cp = switchover_loop (m_cp_cb_table s) 0 (m_cp_id c) (m_cp_id c + 1)
                                 (replicate (length (m_cp_cb_table s)) None)"
    unfolding s2 sw new by (simp add: set_cp_def)
  have cur2: "m_cur_cp s2 = Some new" "m_cp_cb_table s2 = m_cp_cb_table s"
    unfolding s2 sw new by (simp_all add: set_cp_def)
  have nf: "m_cp_status ?old \<noteq> cp_flushing" by simp
  obtain s3 where ex: "cp_io_exit cur s2 = Inr s3" and cur3: "m_cur_cp s3 = Some new"
    using cp_io_exit_eq [OF ho nf] cur2 by (auto simp: set_cp_def)
  have tr: "trigger_cp_flush force t_cp_stack s = Inr (fut, s3)"
    using assms(1) by (simp add: trigger_cp_flush_def g sw' ex CPGuard_dtor_def Let_def)
  have ne: "new \<noteq> cur" using new assms(6) by simp
  have len: "length (m_contexts new_cp) = length (m_cp_cb_table s)"
    by (simp add: nctx switchover_loop_length)
  have ctx: "\<forall>idx<length (m_cp_cb_table s).
        m_contexts new_cp ! idx =
          (case m_cp_cb_table s ! idx of
             None \<Rightarrow> None
           | Some cb \<Rightarrow> Some (on_switchover_cp cb (Some (m_cp_id c)) (m_cp_id new_cp)))"
    unfolding nid by (simp add: nctx switchover_contexts)
  have ost: "m_cp_status ?old = cp_flush_prepare" by simp
  have dt: "CPGuard_dtor cur s2 = Inr s3" using ex by (simp add: CPGuard_dtor_def)
  from g sw' dt tr ne ho hn nid len ctx ost nst cur2(1) cur3
  show ?thesis by blast
qed

theorem trigger_cp_flush_switches_over_witness:
  "trigger_cp_flush False [] ex_entered = Inr (GetFuture 2, ex_triggered) \<and>
   m_cur_cp ex_entered = Some 0 \<and> m_cur_cp ex_triggered = Some 1 \<and>
   m_cp_id (the (heap ex_entered 0)) = 5 \<and> m_cp_id (the (heap ex_triggered 1)) = 6 \<and>
   m_cp_status (the (heap ex_triggered 0)) = cp_flush_prepare \<and>
   m_cp_status (the (heap ex_triggered 1)) = cp_io_ready \<and>
   m_contexts (the (heap ex_triggered 1)) = [Some 6, Some 6]"
proof -
  have h: "\<not> m_in_flush_phase ex_entered" "m_cur_cp ex_entered = Some 0"
    "heap ex_entered 0 = Some (ex_cp 5 cp_io_ready 1 False 0 5)"
    "m_cp_status (ex_cp 5 cp_io_ready 1 False 0 5) = cp_io_ready"
    "[] = [] \<or> hd [] = (0::nat)" "next_addr ex_entered \<noteq> 0"
    by (simp_all add: ex_entered_def ex_booted_def ex_cp_def)
  from trigger_cp_flush_switches_over [OF h, of False]
  obtain fut s3 where "trigger_cp_flush False [] ex_entered = Inr (fut, s3)" by blast
  then show ?thesis using ex_trigger
    by (simp add: ex_entered_def ex_triggered_def ex_booted_def ex_cp_def)
qed








lemma reachable_run: "reachable s \<Longrightarrow> cp_step\<^sup>*\<^sup>* s s' \<Longrightarrow> reachable s'"
  unfolding reachable_def by (meson rtranclp_trans)





















lemma list_update_2: "(a # b # c # xs)[2 := v] = a # b # v # xs"
  by (simp add: numeral_2_eq_2)

lemma list_update_3: "(a # b # c # d # xs)[3 := v] = a # b # c # v # xs"
  by (simp add: numeral_3_eq_3)

lemma ex_flush_done: "on_cp_flush_done 0 ex_forced = Inr ex_b2b"
  by (simp add: on_cp_flush_done_def cleanup_cp_def persist_sb_def wd_reset_cp_def wd_set_cp_def
      setValue_def rearm_after_flush_def trigger_cp_flush_def trigger_switchover_def
      CPGuard_ctor_def CPGuard_dtor_def cp_io_enter_def cp_ref_def cp_io_exit_def cp_start_flush_def
      new_CP_def new_promise_def set_cp_def
      ex_forced_def ex_flushing_def ex_triggered_def ex_booted_def ex_b2b_def ex_cp_def ex_table_def
      ex_cb_def ex_sb_def Let_def list_update_2 list_update_3 fun_eq_iff)


lemma reachable_ex_b2b: "reachable ex_b2b"
  using reachable_ex_forced ex_flush_done by (blast intro: reachable_step step_flush_done)

lemma reachable_ex_stalled: "reachable ex_stalled"
proof -
  have "cp_step ex_b2b (ex_b2b\<lparr>clock_ms := 30000\<rparr>)"
    by (rule step_clock) (simp add: ex_b2b_def)
  then show ?thesis using reachable_ex_b2b unfolding ex_stalled_def by (blast intro: reachable_step)
qed

lemma reachable_ex_overdue: "reachable ex_overdue"
proof -
  have "cp_step ex_b2b (ex_b2b\<lparr>clock_ms := 130000\<rparr>)"
    by (rule step_clock) (simp add: ex_b2b_def)
  then show ?thesis using reachable_ex_b2b unfolding ex_overdue_def by (blast intro: reachable_step)
qed

lemma ex_shutdown_begin: "shutdown_begin [] ex_flushing = Inr (GetFuture 3, ex_shutdown)"
  by (simp add: shutdown_begin_def trigger_cp_flush_def trigger_back_to_back_def CPGuard_ctor_def
      CPGuard_dtor_def cp_io_enter_def cp_ref_def cp_io_exit_def new_promise_def
      set_cp_def ex_booted_def ex_flushing_def ex_forced_def ex_shutdown_def ex_triggered_def ex_cp_def
      ex_table_def ex_cb_def Let_def fun_eq_iff)

lemma ex_flush_done_shutdown: "on_cp_flush_done 0 ex_shutdown = Inr ex_stopped"
  by (simp add: on_cp_flush_done_def cleanup_cp_def persist_sb_def wd_reset_cp_def
      setValue_def set_cp_def
      ex_stopped_def ex_shutdown_def ex_forced_def ex_flushing_def ex_triggered_def ex_booted_def
      ex_cp_def ex_table_def ex_cb_def ex_sb_def Let_def list_update_2 list_update_3 fun_eq_iff)

lemma reachable_ex_shutdown: "reachable ex_shutdown"
  using reachable_ex_flushing ex_shutdown_begin by (blast intro: reachable_step step_shutdown)

lemma reachable_ex_stopped: "reachable ex_stopped"
  using reachable_ex_shutdown ex_flush_done_shutdown by (blast intro: reachable_step step_flush_done)




text \<open>
  Claim C6 fails on the code. The check of the status at the head of
  \<open>cp_watchdog_timer\<close> holds for every status, so a tick returns before it looks at the
  consumers: whatever the state, no consumer is asked to repair and no assertion is
  raised, the manager is left as it was.
\<close>

theorem cp_watchdog_timer_never_acts:
  "cp_watchdog_timer s = Inr s \<or> cp_watchdog_timer s = Inl NullDeref"
  by (auto simp: cp_watchdog_timer_def Let_def split: option.splits)

theorem cp_watchdog_timer_never_acts_witness:
  "m_cp_status (the (heap ex_stalled 1)) = cp_flushing \<and>
   wd_cp (m_wd_cp ex_stalled) = Some 1 \<and>
   cp_watchdog_timer ex_stalled = Inr ex_stalled \<and>
   cp_watchdog_timer ex_overdue = Inr ex_overdue"
  using cp_watchdog_timer_never_acts [of ex_stalled] cp_watchdog_timer_never_acts [of ex_overdue]
  by (auto simp: cp_watchdog_timer_def ex_stalled_def ex_overdue_def ex_b2b_def ex_cp_def)

text \<open>
  What the rest of \<open>cp_watchdog_timer\<close> would do if it were reached, on the same stalled
  CP: before the ceiling of 12 periods only the first consumer below 100 percent is
  asked to repair, and when every consumer reports 100 percent the fatal assertion is
  raised before the ceiling; past the ceiling nothing happens.
\<close>

lemma watchdog_check_examples:
  "watchdog_check ex_stalled = Inr (ex_stalled\<lparr>trace := trace ex_stalled @ [EvRepairSlowCp 0]\<rparr>)"
  "watchdog_check (ex_stalled\<lparr>m_cp_cb_table := [Some (ex_cb 100), Some (ex_cb 100)]\<rparr>)
     = Inl (RelAssert ''cp seems to be stuck'')"
  "watchdog_check ex_overdue = Inr ex_overdue"
  by (simp_all add: watchdog_check_def ex_stalled_def ex_overdue_def ex_b2b_def ex_table_def
      ex_cb_def Let_def)


text \<open>
  Claim C10. Whatever the container holds and however its indexing behaves, also when
  every indexing fails, \<open>get_chunk\<close> and \<open>get_chunk_mutable\<close> of \<open>INVALID_CHUNK_ID\<close> and
  \<open>get_pdev\<close> of \<open>INVALID_PDEV_ID\<close> return a null pointer: the lookup of a sentinel id
  never indexes the array. The sentinel is \<open>UINT32_MAX\<close>.
\<close>

theorem sentinel_lookups_return_null:
  "get_chunk index_op m_chunks_vec INVALID_CHUNK_ID = Inr None \<and>
   get_chunk_mutable index_op m_chunks_vec INVALID_CHUNK_ID = Inr None \<and>
   get_pdev index_op' m_pdevs_vec INVALID_PDEV_ID = Inr None \<and>
   get_chunk (\<lambda>v i. Inl (OutOfRange ''m_chunks'')) m_chunks_vec INVALID_CHUNK_ID = Inr None \<and>
   get_pdev (\<lambda>v i. Inl (OutOfRange ''m_pdevs'')) m_pdevs_vec INVALID_PDEV_ID = Inr None \<and>
   unat INVALID_CHUNK_ID = 2 ^ 32 - 1 \<and> unat INVALID_PDEV_ID = 2 ^ 32 - 1"
  by (simp add: get_chunk_def get_chunk_mutable_def get_pdev_def INVALID_CHUNK_ID_def
      INVALID_PDEV_ID_def)

lemma lookups_index_otherwise:
  "cid \<noteq> INVALID_CHUNK_ID \<Longrightarrow> get_chunk index_op v cid = index_op v cid"
  "cid \<noteq> INVALID_CHUNK_ID \<Longrightarrow> get_chunk_mutable index_op v cid = index_op v cid"
  "pid \<noteq> INVALID_PDEV_ID \<Longrightarrow> get_pdev index_op v pid = index_op v pid"
  by (simp_all add: get_chunk_def get_chunk_mutable_def get_pdev_def)








lemma ex_crc16_vinfo0: "ex_crc16 (ex_vinfo0\<lparr>checksum := 0\<rparr>) = 12289"
  by (simp add: ex_crc16_def ex_vinfo0_def)


lemma ex_load_vdevs: "load_vdevs ex_crc16 ex_dm_opened = Inr ex_dm_loaded"
  by (simp add: load_vdevs_def read_vdev_infos_def load_chunk_cb_def ex_dm_def ex_dm_opened_def
      ex_dm_loaded_def ex_pdev_def ex_vinfo0_def ex_free_slot_def ex_crc16_def ex_chunk_def
      m_vdev_create_cb_def add_chunk_def set_bit_bm_def sv_set_def sv_at_def Let_def fun_eq_iff)






lemma load_chunk_cb_present:
  assumes "vdev_present dm (chunk_vdev_id c)"
  shows "load_chunk_cb c dm =
     (True, dm\<lparr>m_chunk_id_bm := set_bit_bm (m_chunk_id_bm dm) (chunk_id c),
               m_chunks := (m_chunks dm)(chunk_id c \<mapsto> c),
               m_vdevs := (m_vdevs dm)[chunk_vdev_id c :=
                             Some (add_chunk c (the (m_vdevs dm ! chunk_vdev_id c)))]\<rparr>)"
  using assms by (auto simp: load_chunk_cb_def vdev_present_def sv_at_def Let_def)

lemma load_chunk_cb_absent:
  assumes "\<not> vdev_present dm (chunk_vdev_id c)"
  shows "load_chunk_cb c dm =
     (False, dm\<lparr>m_vdevs := snd (sv_at (m_vdevs dm) (chunk_vdev_id c)),
                warnings := warnings dm @ [(chunk_id c, chunk_vdev_id c)]\<rparr>)"
  using assms by (auto simp: load_chunk_cb_def vdev_present_def sv_at_def Let_def)

lemma sv_at_snd_nth:
  "j < length v \<Longrightarrow> snd (sv_at v i) ! j = v ! j"
  "length v \<le> length (snd (sv_at v i))"
  "j < length (snd (sv_at v i)) \<Longrightarrow> length v \<le> j \<Longrightarrow> snd (sv_at v i) ! j = None"
  by (auto simp: sv_at_def nth_append)

lemma nth_upd_in: "j < length xs \<Longrightarrow> xs[i := x] ! j = (if i = j then x else xs ! j)"
  by (cases "i = j") auto

lemma chunks_loaded_refl: "chunks_loaded dm [] dm"
  by (auto simp: chunks_loaded_def vdev_present_def)

lemma chunks_loaded_cb: "chunks_loaded dm [c] (snd (load_chunk_cb c dm))"
proof (cases "vdev_present dm (chunk_vdev_id c)")
  case True
  show ?thesis unfolding load_chunk_cb_present [OF True] using True
    by (auto simp: chunks_loaded_def vdev_present_def set_bit_bm_def add_chunk_def
        nth_upd_in split: if_splits)
next
  case False
  show ?thesis unfolding load_chunk_cb_absent [OF False] using False
    by (auto simp: chunks_loaded_def vdev_present_def sv_at_def nth_append)
qed


lemma chunks_loaded_Cons:
  assumes a: "chunks_loaded dm [c] dm1" and b: "chunks_loaded dm1 cs dm'"
  shows "chunks_loaded dm (c # cs) dm'"
proof -
  have p: "vdev_present dm1 v \<longleftrightarrow> vdev_present dm v" for v
    using a by (simp add: chunks_loaded_def)
  have p': "vdev_present dm' v \<longleftrightarrow> vdev_present dm v" for v
    using b p by (simp add: chunks_loaded_def)
  have vd: "m_vdevs dm' ! v = Some (vd\<lparr>vd_chunks := vd_chunks vd @ filter (\<lambda>c. chunk_vdev_id c = v) (c # cs)\<rparr>)"
    if "vdev_present dm v" "m_vdevs dm ! v = Some vd" for v vd
  proof -
    from a that have 1: "m_vdevs dm1 ! v =
        Some (vd\<lparr>vd_chunks := vd_chunks vd @ filter (\<lambda>c. chunk_vdev_id c = v) [c]\<rparr>)"
      unfolding chunks_loaded_def by blast
    from b p that(1) 1 have "m_vdevs dm' ! v =
        Some ((vd\<lparr>vd_chunks := vd_chunks vd @ filter (\<lambda>c. chunk_vdev_id c = v) [c]\<rparr>)
                \<lparr>vd_chunks := vd_chunks (vd\<lparr>vd_chunks := vd_chunks vd @ filter (\<lambda>c. chunk_vdev_id c = v) [c]\<rparr>)
                    @ filter (\<lambda>c. chunk_vdev_id c = v) cs\<rparr>)"
      unfolding chunks_loaded_def by blast
    then show ?thesis by simp
  qed
  have len: "length (m_chunk_id_bm dm') = length (m_chunk_id_bm dm)"
    using a b by (simp add: chunks_loaded_def)
  have bm: "m_chunk_id_bm dm' ! i \<longleftrightarrow>
          m_chunk_id_bm dm ! i \<or> (\<exists>x\<in>set (c # cs). vdev_present dm (chunk_vdev_id x) \<and> chunk_id x = i)"
    if "i < length (m_chunk_id_bm dm)" for i
  proof -
    have l1: "length (m_chunk_id_bm dm1) = length (m_chunk_id_bm dm)"
      using a by (simp add: chunks_loaded_def)
    from a that have 1: "m_chunk_id_bm dm1 ! i \<longleftrightarrow>
          m_chunk_id_bm dm ! i \<or> (\<exists>x\<in>set [c]. vdev_present dm (chunk_vdev_id x) \<and> chunk_id x = i)"
      unfolding chunks_loaded_def by blast
    from b that l1 have 2: "m_chunk_id_bm dm' ! i \<longleftrightarrow>
          m_chunk_id_bm dm1 ! i \<or> (\<exists>x\<in>set cs. vdev_present dm1 (chunk_vdev_id x) \<and> chunk_id x = i)"
      unfolding chunks_loaded_def by simp
    show ?thesis unfolding 2 1 p by auto
  qed
  have w: "warnings dm' = warnings dm @
        map (\<lambda>c. (chunk_id c, chunk_vdev_id c)) (filter (\<lambda>c. \<not> vdev_present dm (chunk_vdev_id c)) (c # cs))"
  proof -
    from a have 1: "warnings dm1 = warnings dm @
        map (\<lambda>c. (chunk_id c, chunk_vdev_id c)) (filter (\<lambda>c. \<not> vdev_present dm (chunk_vdev_id c)) [c])"
      unfolding chunks_loaded_def by blast
    from b have 2: "warnings dm' = warnings dm1 @
        map (\<lambda>c. (chunk_id c, chunk_vdev_id c)) (filter (\<lambda>c. \<not> vdev_present dm1 (chunk_vdev_id c)) cs)"
      unfolding chunks_loaded_def by blast
    show ?thesis unfolding 2 1 p by simp
  qed
  have mc: "m_chunks dm' k =
        (case filter (\<lambda>x. vdev_present dm (chunk_vdev_id x) \<and> chunk_id x = k) (c # cs) of
           [] \<Rightarrow> m_chunks dm k
         | x # xs \<Rightarrow> Some (last (x # xs)))" for k
  proof -
    from a have 1: "m_chunks dm1 k =
        (case filter (\<lambda>x. vdev_present dm (chunk_vdev_id x) \<and> chunk_id x = k) [c] of
           [] \<Rightarrow> m_chunks dm k
         | x # xs \<Rightarrow> Some (last (x # xs)))"
      unfolding chunks_loaded_def by blast
    from b have 2: "m_chunks dm' k =
        (case filter (\<lambda>x. vdev_present dm1 (chunk_vdev_id x) \<and> chunk_id x = k) cs of
           [] \<Rightarrow> m_chunks dm1 k
         | x # xs \<Rightarrow> Some (last (x # xs)))"
      unfolding chunks_loaded_def by blast
    show ?thesis unfolding 2 1 p by (simp split: list.splits)
  qed
  have rest: "m_all_pdevs dm' = m_all_pdevs dm" "m_vdev_id_bm dm' = m_vdev_id_bm dm"
    "m_pdevs_by_type dm' = m_pdevs_by_type dm"
    using a b by (simp_all add: chunks_loaded_def)
  show ?thesis
    unfolding chunks_loaded_def
    using p' vd len bm w mc rest by blast
qed

lemma load_chunks_ok: "chunks_loaded dm cs (load_chunks cs dm)"
proof (induction cs arbitrary: dm)
  case Nil
  then show ?case by (simp add: chunks_loaded_refl)
next
  case (Cons c cs)
  show ?case
    using chunks_loaded_Cons [OF chunks_loaded_cb Cons.IH [of "snd (load_chunk_cb c dm)"]]
    by simp
qed

lemma load_chunks_append: "load_chunks (xs @ ys) dm = load_chunks ys (load_chunks xs dm)"
  by (induction xs arbitrary: dm) auto

lemma load_vdevs_chunks_eq:
  "load_vdevs_chunks pdevs dm =
     (if None \<in> set pdevs then Inl NullDeref else Inr (load_chunks (all_chunks pdevs) dm))"
proof (induction pdevs arbitrary: dm)
  case Nil
  then show ?case by (simp add: all_chunks_def)
next
  case (Cons p pdevs)
  show ?case
  proof (cases p)
    case None
    then show ?thesis by simp
  next
    case (Some pd)
    then show ?thesis using Cons.IH [of "load_chunks (pd_chunks pd) dm"]
      by (auto simp: all_chunks_def load_chunks_append)
  qed
qed


lemma ex_load_vdevs_tiers: "load_vdevs_tiers ex_crc16 [Data, Fast] ex_dm_opened = Inr ex_dm_tiers"
  by (simp add: read_vdev_infos_def ex_dm_def ex_dm_opened_def ex_dm_tiers_def
      ex_pdev_def ex_vinfo0_def ex_free_slot_def ex_crc16_def
      m_vdev_create_cb_def set_bit_bm_def sv_set_def sv_at_def Let_def)

text \<open>
  Claim C9, as stated, fails: on the test media with no VDev written to the VDev table,
  the five chunks recorded on the two devices all belong to a VDev that has no entry, and
  \<open>load_devices\<close> succeeds without logging any of them: \<open>load_vdevs\<close> reads the chunks
  only when \<open>m_vdevs\<close> is not empty.
\<close>

theorem load_vdevs_no_vdev_counterexample:
  "(case load_devices 1 ex_crc16 ex_media_no_vdev ex_dm of
      Inl e \<Rightarrow> False
    | Inr dm' \<Rightarrow>
        all_chunks (m_all_pdevs dm') =
          [ex_chunk 0 0 0, ex_chunk 2 0 0, ex_chunk 4 0 1, ex_chunk 1 1 0, ex_chunk 3 1 0] \<and>
        m_vdevs dm' = [] \<and> warnings dm' = [] \<and>
        m_chunk_id_bm dm' = [False, False, False, False, False, False, False, False])"
  by (simp add: load_devices_def load_vdevs_def read_vdev_infos_def ex_media_no_vdev_def
      ex_dm_def ex_media_def ex_dev_def ex_hdr_def ex_fblk_def ex_free_slot_def all_chunks_def
      read_first_block_def PhysicalDev_ctor_def sv_set_def sv_at_def Let_def)

text \<open>
  Claim C9, amended. Once the VDev table is read and every slot of \<open>m_all_pdevs\<close> holds a device,
  \<open>load_vdevs\<close> succeeds whatever the chunks are. When no VDev at all was loaded, no chunk
  is looked at, nothing is logged and the manager is left as it is. Otherwise, that is when
  at least one VDev was loaded, over the chunks \<open>cs\<close> recorded
  on the devices: a warning with its chunk id and VDev id is logged for exactly the
  chunks whose VDev has no entry (the dangling chunks); no VDev appears or disappears;
  every VDev that is there gets exactly the chunks recorded for it, so a dangling
  chunk is added to none; the bits newly marked in the chunk-id bitmap are exactly the ids
  of the chunks whose VDev is there; and \<open>m_chunks\<close> registers exactly those chunks.
\<close>

theorem load_vdevs_dangling_chunks:
  assumes "load_vdevs_tiers crc [Data, Fast] dm = Inr dm1" "None \<notin> set (m_all_pdevs dm1)"
  shows "\<exists>dm2. load_vdevs crc dm = Inr dm2 \<and>
     (m_vdevs dm1 = [] \<longrightarrow> dm2 = dm1) \<and>
     (m_vdevs dm1 \<noteq> [] \<longrightarrow>
        warnings dm2 = warnings dm1 @
          map (\<lambda>c. (chunk_id c, chunk_vdev_id c))
            (filter (\<lambda>c. \<not> vdev_present dm1 (chunk_vdev_id c)) (all_chunks (m_all_pdevs dm1))) \<and>
        (\<forall>v. vdev_present dm2 v \<longleftrightarrow> vdev_present dm1 v) \<and>
        (\<forall>v vd. vdev_present dm1 v \<and> m_vdevs dm1 ! v = Some vd \<longrightarrow>
           m_vdevs dm2 ! v =
             Some (vd\<lparr>vd_chunks := vd_chunks vd @
                        filter (\<lambda>c. chunk_vdev_id c = v) (all_chunks (m_all_pdevs dm1))\<rparr>)) \<and>
        (\<forall>i<length (m_chunk_id_bm dm1).
           m_chunk_id_bm dm2 ! i \<longleftrightarrow>
             m_chunk_id_bm dm1 ! i \<or>
             (\<exists>c\<in>set (all_chunks (m_all_pdevs dm1)).
                vdev_present dm1 (chunk_vdev_id c) \<and> chunk_id c = i)) \<and>
        (\<forall>k. m_chunks dm2 k =
           (case filter (\<lambda>c. vdev_present dm1 (chunk_vdev_id c) \<and> chunk_id c = k)
                   (all_chunks (m_all_pdevs dm1)) of
              [] \<Rightarrow> m_chunks dm1 k
            | x # xs \<Rightarrow> Some (last (x # xs)))))"
proof (cases "m_vdevs dm1 = []")
  case True
  then have "load_vdevs crc dm = Inr dm1" using assms(1) by (simp add: load_vdevs_def)
  then show ?thesis using True by simp
next
  case False
  let ?cs = "all_chunks (m_all_pdevs dm1)"
  let ?dm2 = "load_chunks ?cs dm1"
  have l: "load_vdevs crc dm = Inr ?dm2"
    using assms False by (simp add: load_vdevs_def load_vdevs_chunks_eq)
  have ok: "chunks_loaded dm1 ?cs ?dm2" by (rule load_chunks_ok)
  show ?thesis
    apply (rule exI [of _ ?dm2])
    using l False ok unfolding chunks_loaded_def
    apply (intro conjI impI)
           apply (simp_all)
    done
qed

theorem load_vdevs_dangling_chunks_witness:
  "load_vdevs ex_crc16 ex_dm_opened = Inr ex_dm_loaded \<and>
   all_chunks (m_all_pdevs ex_dm_opened) =
     [ex_chunk 0 0 0, ex_chunk 2 0 0, ex_chunk 4 0 1, ex_chunk 1 1 0, ex_chunk 3 1 0] \<and>
   vdev_present ex_dm_tiers 0 \<and> \<not> vdev_present ex_dm_tiers 1 \<and>
   warnings ex_dm_loaded = [(4, 1)] \<and>
   m_chunk_id_bm ex_dm_loaded = [True, True, True, True, False, False, False, False] \<and>
   m_chunks ex_dm_loaded 4 = None \<and>
   m_vdevs ex_dm_loaded =
     [Some \<lparr>vd_info = ex_vinfo0,
            vd_chunks = [ex_chunk 0 0 0, ex_chunk 2 0 0, ex_chunk 1 1 0, ex_chunk 3 1 0]\<rparr>, None]"
proof -
  have n: "None \<notin> set (m_all_pdevs ex_dm_tiers)"
    by (simp add: ex_dm_tiers_def ex_dm_opened_def ex_dm_def)
  from load_vdevs_dangling_chunks [OF ex_load_vdevs_tiers n]
  obtain dm2 where "load_vdevs ex_crc16 ex_dm_opened = Inr dm2" by blast
  then have "load_vdevs ex_crc16 ex_dm_opened = Inr ex_dm_loaded" using ex_load_vdevs by simp
  then show ?thesis
    by (simp add: ex_dm_loaded_def ex_dm_opened_def ex_dm_tiers_def ex_dm_def ex_pdev_def
        all_chunks_def vdev_present_def)
qed




















lemma ex_streams: "pdev_streams (ex_dm_formatted\<lparr>m_vdev_id_bm := bm\<rparr>) 0 = 2"
  "pdev_streams (ex_dm_formatted\<lparr>m_vdev_id_bm := bm\<rparr>) (Suc 0) = 2"
  "pdev_streams ex_dm_formatted 0 = 2" "pdev_streams ex_dm_formatted (Suc 0) = 2"
  by (simp_all add: pdev_streams_def sv_at_def ex_dm_formatted_def ex_dm_def ex_pdev_fresh_def)





lemma ex_by_type:
  "pdevs_by_type_internal Data (ex_dm_formatted\<lparr>m_vdev_id_bm := bm\<rparr>) = Some [0, 1]"
  by (simp add: pdevs_by_type_internal_def ex_dm_formatted_def ex_dm_def)













lemma adjust_size_chunk_size_wraps:
  "adjust_size (\<lambda>d. 4) [ex_dev ''d0'', ex_dev ''d1''] 2 34359738368 4096 = Inr (2, 34359738368, 0)"
  by (simp add: adjust_size_def round_up_def)

lemma create_vdev_num_chunks_wraps:
  "create_vdev (\<lambda>d. 3) ex_crc16 (ex_vparam 1000 4294967295 10) ex_dm_formatted = Inl DivideByZero"
proof -
  have s: "pdev_streams (ex_dm_formatted\<lparr>m_vdev_id_bm := bm\<rparr>) (Suc 0) = 2"
    "pdev_streams (ex_dm_formatted\<lparr>m_vdev_id_bm := bm\<rparr>) 0 = 2" for bm
    by (rule ex_streams)+
  have 1: "get_next_reset_bit (m_vdev_id_bm ex_dm_formatted) 0 = Some 0"
    by (simp add: ex_dm_formatted_def ex_dm_def get_next_reset_bit_def)
  have 5: "identify_num_chunks (ex_dm_formatted\<lparr>m_vdev_id_bm := bm\<rparr>) ALL_PDEV_STRIPED [0, Suc 0] 4294967295
      = Inr ([0, Suc 0], 0)" for bm
    by (simp add: identify_num_chunks_def s round_up_def)
  have 6: "adjust_size (\<lambda>d. 3) devs 0 vs bs = Inl DivideByZero" for devs vs bs
    by (simp add: adjust_size_def)
  show ?thesis
    by (simp add: create_vdev_def Let_def ex_vparam_def ex_by_type 1 5 6)
qed


end
